theory Spec2Isabelle
  imports Complex_Main
begin

section \<open>Python text and the external world\<close>

text \<open>
  A Python \<open>str\<close> is modelled as the list of its Unicode code points, so that slicing and
  \<open>strip\<close> count characters the way Python does.  \<open>ascii\<close> reads an ASCII literal.
  Elapsed times (\<open>time.time() - start\<close>) are exact rationals, in seconds.
\<close>

type_synonym pystr = "nat list"
type_synonym cmd = "pystr list"

definition ascii :: "string \<Rightarrow> pystr" where
  "ascii s = map of_char s"

text \<open>The characters Python's \<open>str.strip()\<close> removes (\<open>str.isspace\<close>).\<close>

definition py_isspace :: "nat \<Rightarrow> bool" where
  "py_isspace c \<longleftrightarrow>
     (9 \<le> c \<and> c \<le> 13) \<or> (28 \<le> c \<and> c \<le> 32) \<or> c = 133 \<or> c = 160 \<or> c = 5760 \<or>
     (8192 \<le> c \<and> c \<le> 8202) \<or> c = 8232 \<or> c = 8233 \<or> c = 8239 \<or> c = 8287 \<or> c = 12288"

definition strip :: "pystr \<Rightarrow> pystr" where
  "strip s = rev (dropWhile py_isspace (rev (dropWhile py_isspace s)))"

text \<open>Python's \<open>a or b\<close> on strings: \<open>a\<close> unless it is empty.\<close>

definition py_or :: "pystr \<Rightarrow> pystr \<Rightarrow> pystr" where
  "py_or a b = (if a = [] then b else a)"

text \<open>
  What an external command does when it is launched: it runs for some seconds and exits with
  a return code, having written its stdout and stderr; or it never exits by itself; or its
  executable cannot be resolved (after some seconds, with the text of the OS error); or
  \<open>subprocess.run\<close> raises another exception for it (\<open>PermissionError\<close> or another
  \<open>OSError\<close> when the file cannot be executed, \<open>UnicodeDecodeError\<close> when its output is not
  text), after some seconds, with the text of the exception.
\<close>

datatype proc_behaviour =
    Exits rat int pystr pystr
  | Hangs
  | NotFound rat pystr
  | RunError rat pystr

text \<open>The keyword arguments of one \<open>subprocess.run\<close> call.\<close>

record run_args =
  args :: cmd
  cwd :: pystr
  stdout_pipe :: bool
  stderr_pipe :: bool
  text_mode :: bool
  check :: bool
  timeout :: "rat option"

text \<open>
  The environment of a run: what each command does, how long the write of each file takes
  and whether it raises \<open>OSError\<close> (with its text), the variable part of
  \<open>str(CalledProcessError)\<close>, the workspace path, whether the n-th \<open>shutil.rmtree\<close>
  succeeds, which paths \<open>Path.exists\<close> finds, and whether creating the workspace directory
  raises (with the text of the exception).
\<close>

record env =
  behaviour :: "cmd \<Rightarrow> proc_behaviour"
  write_text :: "pystr \<Rightarrow> rat \<times> pystr option"
  cpe_tail :: "cmd \<Rightarrow> int \<Rightarrow> pystr"
  WORKSPACE :: pystr
  rmtree_ok :: "nat \<Rightarrow> bool"
  path_exists :: "pystr \<Rightarrow> bool"
  mkdir_error :: "pystr option"

text \<open>\<open>str(e)\<close> of a \<open>CalledProcessError\<close>: it starts with \<open>Command\<close>.\<close>

definition str_CalledProcessError :: "env \<Rightarrow> cmd \<Rightarrow> int \<Rightarrow> pystr" where
  "str_CalledProcessError e c rc = ascii ''Command '' @ cpe_tail e c rc"

text \<open>
  A language definition.  The presentation fields (colour, syntax name, source text) are left
  out: the only operation that reads the source text is the file write, whose outcome the
  environment gives by file name.
\<close>

record LanguageSpec =
  name :: pystr
  filename :: pystr
  compile_cmds :: "cmd list"
  run_cmd :: cmd

text \<open>What a stage executor returns: \<open>(success, elapsed, stdout, stderr)\<close>.\<close>

type_synonym stage_result = "bool \<times> rat \<times> pystr \<times> pystr"

text \<open>The keys of a \<open>timings\<close> dictionary: write, compile, run, total.\<close>

datatype timing_key = TWrite | TCompile | TRun | TTotal

type_synonym timings = "timing_key \<Rightarrow> rat option"

text \<open>\<open>timings.get(k, 0)\<close> and \<open>sum(timings.values())\<close>.\<close>

definition get0 :: "timings \<Rightarrow> timing_key \<Rightarrow> rat" where
  "get0 t k = (case t k of None \<Rightarrow> 0 | Some v \<Rightarrow> v)"

definition sum_values :: "timings \<Rightarrow> rat" where
  "sum_values t = get0 t TWrite + get0 t TCompile + get0 t TRun + get0 t TTotal"

text \<open>
  The events animated_hello.py puts on its queue (\<open>send_event\<close>, 664-669), one constructor
  per event type, with the language index and the payload.  The status texts are the
  literals of lines 728-792: compiling, compile failed, compile done, running, run done,
  run failed.  The \<open>timing\<close> payload is kept as its four numbers (write, compile, run,
  total) and the \<open>done\<close> payload as the two counts, instead of the formatted text.
\<close>

datatype anim_status =
    AnimCompiling | AnimCompileFailed | AnimCompileDone | AnimRunning | AnimRunDone | AnimRunFailed

datatype event =
    EvStep nat
  | EvStatus nat anim_status
  | EvProgress nat int
  | EvCompileStart nat pystr
  | EvCompileError nat pystr pystr
  | EvCompileDone nat pystr rat
  | EvRunStart nat pystr
  | EvRunDone nat pystr pystr rat
  | EvRunError nat pystr pystr
  | EvTiming nat rat rat rat rat
  | EvDone nat nat

text \<open>
  What a front end does that others can observe, in the order it does it: launching a
  process, writing a source file, removing or creating the workspace directory, moving a
  progress task of educational_hello.py (\<open>progress.advance\<close>,
  \<open>progress.update(completed=n)\<close>), assigning a value to \<open>state.progress\<close> of
  graphical_hello.py, scheduling a panel update there (\<open>self.root.after(0, ...)\<close>; the
  callback reads the state when the interface thread runs it, not when it is scheduled),
  and queueing an event of animated_hello.py.
\<close>

datatype effect =
    Launch run_args
  | WriteFile pystr
  | Rmtree
  | Mkdir
  | Advance
  | UpdateCompleted nat
  | Assign rat
  | After
  | Send event

text \<open>
  How a piece of code ends: it returns a value, an exception leaves it (with the text of
  the exception), or it never ends.  An action is how the code ends together with the
  effects it had until then.
\<close>

datatype 'a outcome = Returns 'a | Raises pystr | Blocks

type_synonym 'a action = "'a outcome \<times> effect list"

text \<open>Sequencing: the second action runs only when the first returns.\<close>

definition then_do :: "'a action \<Rightarrow> ('a \<Rightarrow> 'b action) \<Rightarrow> 'b action" where
  "then_do m k =
     (case m of
        (Returns x, fx) \<Rightarrow> (case k x of (r, fx') \<Rightarrow> (r, fx @ fx'))
      | (Raises msg, fx) \<Rightarrow> (Raises msg, fx)
      | (Blocks, fx) \<Rightarrow> (Blocks, fx))"

definition emit :: "effect list \<Rightarrow> unit action" where
  "emit fx = (Returns (), fx)"

text \<open>The text of the \<open>IndexError\<close> of \<open>cmd[0]\<close> on an empty list.\<close>

definition index_error :: pystr where
  "index_error = ascii ''list index out of range''"

datatype run_outcome =
    CompletedProcess int pystr pystr
  | CalledProcessError int pystr pystr
  | FileNotFoundError pystr
  | TimeoutExpired

text \<open>
  \<open>subprocess.run\<close> of the standard library, with the elapsed time of the call.  The
  result and the three exceptions some front end handles are values; every other exception
  leaves the call: the \<open>IndexError\<close> of an empty argument vector (nothing is launched) and
  the errors of a command that cannot be run.  The call never ends when the child never
  exits and no timeout was given.  A child that outlives the timeout is killed and
  \<open>TimeoutExpired\<close> is raised.
\<close>

definition subprocess_run :: "env \<Rightarrow> run_args \<Rightarrow> (run_outcome \<times> rat) action" where
  "subprocess_run e a =
     (if args a = [] then (Raises index_error, [])
      else case behaviour e (args a) of
          NotFound d msg \<Rightarrow> (Returns (FileNotFoundError msg, d), [Launch a])
        | RunError d msg \<Rightarrow> (Raises msg, [Launch a])
        | Hangs \<Rightarrow>
            (case timeout a of
               None \<Rightarrow> (Blocks, [Launch a])
             | Some t \<Rightarrow> (Returns (TimeoutExpired, t), [Launch a]))
        | Exits d rc out err \<Rightarrow>
            (case timeout a of
               Some t \<Rightarrow>
                 if t < d then (Returns (TimeoutExpired, t), [Launch a])
                 else if check a \<and> rc \<noteq> 0 then (Returns (CalledProcessError rc out err, d), [Launch a])
                 else (Returns (CompletedProcess rc out err, d), [Launch a])
             | None \<Rightarrow>
                 if check a \<and> rc \<noteq> 0 then (Returns (CalledProcessError rc out err, d), [Launch a])
                 else (Returns (CompletedProcess rc out err, d), [Launch a])))"

text \<open>
  \<open>WORKSPACE.mkdir(parents=True, exist_ok=True)\<close>: the directory is there afterwards, or
  the call raises.
\<close>

definition mkdir_workspace :: "env \<Rightarrow> unit action" where
  "mkdir_workspace e =
     (case mkdir_error e of
        None \<Rightarrow> (Returns (), [Mkdir])
      | Some msg \<Rightarrow> (Raises msg, [Mkdir]))"

section \<open>web_hello.py\<close>

text \<open>The literals of web_hello.py lines 663, 666 and 730 (Korean text, as code points):
  command not found, timeout (over 30 seconds), (no output).\<close>

definition web_not_found_prefix :: pystr where
  "web_not_found_prefix =
     [0xba85, 0xb839, 0xc5b4, 0xb97c, 0x20, 0xcc3e, 0xc744, 0x20, 0xc218, 0x20, 0xc5c6, 0xc74c,
      0x3a, 0x20]"

definition timeout_30_msg :: pystr where
  "timeout_30_msg =
     [0xd0c0, 0xc784, 0xc544, 0xc6c3, 0x20, 0x28, 0x33, 0x30, 0xcd08, 0x20, 0xcd08, 0xacfc, 0x29]"

definition no_output_msg :: pystr where
  "no_output_msg = [0x28, 0xcd9c, 0xb825, 0x20, 0xc5c6, 0xc74c, 0x29]"

definition web_run_args :: "cmd \<Rightarrow> pystr \<Rightarrow> run_args" where
  "web_run_args c d =
     \<lparr>args = c, cwd = d, stdout_pipe = True, stderr_pipe = True, text_mode = True,
      check = True, timeout = Some 30\<rparr>"

text \<open>\<open>run_subprocess\<close> (web_hello.py 643-666).\<close>

definition web_run_subprocess :: "env \<Rightarrow> cmd \<Rightarrow> pystr \<Rightarrow> stage_result action" where
  "web_run_subprocess e c d =
     (case subprocess_run e (web_run_args c d) of
        (Returns (CompletedProcess rc out err, elapsed), fx) \<Rightarrow>
          (Returns (True, elapsed, strip out, strip err), fx)
      | (Returns (CalledProcessError rc out err, elapsed), fx) \<Rightarrow>
          (Returns (False, elapsed, py_or out [], py_or err (str_CalledProcessError e c rc)), fx)
      | (Returns (FileNotFoundError msg, elapsed), fx) \<Rightarrow>
          (case c of
             [] \<Rightarrow> (Raises index_error, fx)
           | c0 # _ \<Rightarrow> (Returns (False, elapsed, [], web_not_found_prefix @ c0), fx))
      | (Returns (TimeoutExpired, elapsed), fx) \<Rightarrow>
          (Returns (False, elapsed, [], timeout_30_msg), fx)
      | (Raises msg, fx) \<Rightarrow> (Raises msg, fx)
      | (Blocks, fx) \<Rightarrow> (Blocks, fx))"

text \<open>The values of \<open>result["status"]\<close> (web_hello.py 672-733), in the order of the stages.\<close>

datatype web_status =
    WebWaiting | WebWriteFailed | WebCompiling | WebCompileFailed | WebRunning | WebRunDone
  | WebRunFailed

record web_result =
  web_status :: web_status
  web_progress :: int
  web_output :: pystr
  web_error :: pystr
  web_write_time :: rat
  web_compile_time :: rat
  web_run_time :: rat
  web_total_time :: rat
  web_failed :: bool

definition web_initial :: web_result where
  "web_initial =
     \<lparr>web_status = WebWaiting, web_progress = 0, web_output = [], web_error = [],
      web_write_time = 0, web_compile_time = 0, web_run_time = 0, web_total_time = 0,
      web_failed = False\<rparr>"

text \<open>
  The compile loop of \<open>execute_language\<close> (web_hello.py 706-717): \<open>Inl\<close> is the early return
  of the result at the first failing step, \<open>Inr\<close> the accumulated \<open>compile_total\<close> when the
  loop runs to its end.
\<close>

fun web_compile_loop :: "env \<Rightarrow> web_result \<Rightarrow> rat \<Rightarrow> cmd list \<Rightarrow> (web_result + rat) action" where
  "web_compile_loop e r compile_total [] = (Returns (Inr compile_total), [])"
| "web_compile_loop e r compile_total (c # cs) =
     then_do (web_run_subprocess e c (WORKSPACE e)) (\<lambda>(success, elapsed, out, err).
       if \<not> success then
         (Returns (Inl (r\<lparr>web_status := WebCompileFailed,
                           web_error := py_or err out,
                           web_failed := True,
                           web_compile_time := compile_total + elapsed,
                           web_total_time := web_write_time r + (compile_total + elapsed),
                           web_progress := 100\<rparr>)), [])
       else web_compile_loop e r (compile_total + elapsed) cs)"

text \<open>Stage 3 of \<open>execute_language\<close> (web_hello.py 722-738).\<close>

definition web_run_stage :: "env \<Rightarrow> LanguageSpec \<Rightarrow> web_result \<Rightarrow> web_result action" where
  "web_run_stage e spec r =
     then_do (web_run_subprocess e (run_cmd spec) (WORKSPACE e)) (\<lambda>(success, elapsed, out, err).
       (let r1 = r\<lparr>web_status := WebRunning\<rparr>;
            r2 = r1\<lparr>web_run_time := elapsed\<rparr>;
            r3 = r2\<lparr>web_total_time := web_write_time r2 + web_compile_time r2 + web_run_time r2\<rparr>
        in if success then
             (Returns (r3\<lparr>web_status := WebRunDone, web_output := py_or out no_output_msg,
                          web_progress := 100\<rparr>), [])
           else
             (Returns (r3\<lparr>web_status := WebRunFailed, web_error := py_or err out,
                          web_failed := True, web_progress := 100\<rparr>), [])))"

text \<open>
  \<open>execute_language\<close> (web_hello.py 668-738) for the language \<open>spec = LANGUAGES[idx]\<close>.
  The workspace directory is created when it is missing (684-685), outside any \<open>try\<close>.
\<close>

definition execute_language :: "env \<Rightarrow> LanguageSpec \<Rightarrow> web_result action" where
  "execute_language e spec =
     then_do (if \<not> path_exists e (WORKSPACE e) then mkdir_workspace e else emit []) (\<lambda>_.
     then_do (emit [WriteFile (filename spec)]) (\<lambda>_.
       case write_text e (filename spec) of
         (elapsed, Some msg) \<Rightarrow>
           (Returns (web_initial\<lparr>web_status := WebWriteFailed, web_error := msg,
                                 web_failed := True, web_progress := 100\<rparr>), [])
       | (elapsed, None) \<Rightarrow>
           (let r = web_initial\<lparr>web_write_time := elapsed, web_progress := 25\<rparr> in
            if compile_cmds spec \<noteq> [] then
              then_do (web_compile_loop e (r\<lparr>web_status := WebCompiling\<rparr>) 0 (compile_cmds spec))
                (\<lambda>x. case x of
                   Inl failed_result \<Rightarrow> (Returns failed_result, [])
                 | Inr compile_total \<Rightarrow>
                     web_run_stage e spec
                       (r\<lparr>web_status := WebCompiling, web_compile_time := compile_total,
                          web_progress := 70\<rparr>))
            else web_run_stage e spec r)))"

section \<open>educational_hello.py\<close>

definition edu_run_args :: "cmd \<Rightarrow> pystr \<Rightarrow> run_args" where
  "edu_run_args c d =
     \<lparr>args = c, cwd = d, stdout_pipe = True, stderr_pipe = True, text_mode = True,
      check = True, timeout = None\<rparr>"

text \<open>
  \<open>run_subprocess\<close> (educational_hello.py 133-155).  No timeout is passed and
  \<open>TimeoutExpired\<close> has no handler.
\<close>

definition edu_run_subprocess :: "env \<Rightarrow> cmd \<Rightarrow> pystr \<Rightarrow> stage_result action" where
  "edu_run_subprocess e c d =
     (case subprocess_run e (edu_run_args c d) of
        (Returns (CompletedProcess rc out err, elapsed), fx) \<Rightarrow>
          (Returns (True, elapsed, strip out, strip err), fx)
      | (Returns (FileNotFoundError msg, elapsed), fx) \<Rightarrow>
          (Returns (False, elapsed, [], msg), fx)
      | (Returns (CalledProcessError rc out err, elapsed), fx) \<Rightarrow>
          (Returns (False, elapsed, strip (py_or out []), strip (py_or err [])), fx)
      | (Returns (TimeoutExpired, elapsed), fx) \<Rightarrow> (Raises (ascii ''TimeoutExpired''), fx)
      | (Raises msg, fx) \<Rightarrow> (Raises msg, fx)
      | (Blocks, fx) \<Rightarrow> (Blocks, fx))"

text \<open>\<open>write_source_file\<close> (educational_hello.py 157-167): \<open>(ok, elapsed, error)\<close>.\<close>

definition edu_write_source_file :: "env \<Rightarrow> LanguageSpec \<Rightarrow> (bool \<times> rat \<times> pystr) action" where
  "edu_write_source_file e spec =
     (case write_text e (filename spec) of
        (elapsed, None) \<Rightarrow> (Returns (True, elapsed, []), [WriteFile (filename spec)])
      | (elapsed, Some msg) \<Rightarrow> (Returns (False, elapsed, msg), [WriteFile (filename spec)]))"

text \<open>
  The values of \<open>state.status\<close> that \<open>main\<close> assigns from line 292 on: writing the source,
  write failed (with the message), ready to interpret, compiling (i/n), compilation error,
  compilation complete, skipped due to earlier error, executing, execution succeeded,
  execution error.  \<open>EduWaiting\<close> is the default of the dataclass.
\<close>

datatype edu_status =
    EduWaiting | EduWriting | EduWriteFailed pystr | EduReadyToInterpret | EduCompiling nat nat
  | EduCompilationError | EduCompilationComplete | EduSkipped | EduExecuting
  | EduExecutionSucceeded | EduExecutionError

record LanguageState =
  edu_status :: edu_status
  edu_stdout :: pystr
  edu_stderr :: pystr
  edu_failed :: bool
  edu_timings :: timings

definition edu_initial :: LanguageState where
  "edu_initial =
     \<lparr>edu_status = EduWaiting, edu_stdout = [], edu_stderr = [], edu_failed = False,
      edu_timings = (\<lambda>k. None)\<rparr>"

text \<open>
  The loop over the compile commands (educational_hello.py 311-327): the state and the
  accumulated \<open>compile_time\<close>.  \<open>n\<close> is \<open>len(spec.compile_cmds)\<close>, \<open>cmd_index\<close> counts
  from 1.
\<close>

fun edu_compile_loop ::
  "env \<Rightarrow> nat \<Rightarrow> LanguageState \<Rightarrow> rat \<Rightarrow> nat \<Rightarrow> cmd list \<Rightarrow> (LanguageState \<times> rat) action" where
  "edu_compile_loop e n st compile_time cmd_index [] = (Returns (st, compile_time), [])"
| "edu_compile_loop e n st compile_time cmd_index (c # cs) =
     then_do (edu_run_subprocess e c (WORKSPACE e)) (\<lambda>(ok, elapsed, stdout_text, stderr_text).
       if \<not> ok then
         (Returns (st\<lparr>edu_status := EduCompilationError,
                      edu_stderr := py_or stderr_text stdout_text,
                      edu_failed := True\<rparr>,
                   compile_time + elapsed), [UpdateCompleted (1 + n)])
       else
         (let st1 = st\<lparr>edu_status := EduCompiling cmd_index n\<rparr>;
              st2 = (if stdout_text \<noteq> [] then st1\<lparr>edu_stdout := stdout_text\<rparr> else st1);
              st3 = (if stderr_text \<noteq> [] then st2\<lparr>edu_stderr := stderr_text\<rparr> else st2)
          in then_do (emit [Advance]) (\<lambda>_.
               edu_compile_loop e n st3 (compile_time + elapsed) (cmd_index + 1) cs)))"

text \<open>One pass of the Step 2 loop of \<open>main\<close> (educational_hello.py 289-334) for one language.\<close>

definition edu_compile_phase :: "env \<Rightarrow> LanguageSpec \<Rightarrow> LanguageState \<Rightarrow> LanguageState action" where
  "edu_compile_phase e spec st =
     (let total_steps = 1 + length (compile_cmds spec) in
      then_do (edu_write_source_file e spec) (\<lambda>(ok, elapsed, error_message).
      then_do (emit [Advance]) (\<lambda>_.
        (let st1 = st\<lparr>edu_status := EduWriting,
                      edu_timings := (edu_timings st)(TWrite \<mapsto> elapsed)\<rparr>
         in if \<not> ok then
              (Returns (st1\<lparr>edu_status := EduWriteFailed error_message,
                           edu_stderr := error_message,
                           edu_failed := True\<rparr>),
               [UpdateCompleted total_steps])
            else if compile_cmds spec = [] then
              (Returns (st1\<lparr>edu_timings := (edu_timings st1)(TCompile \<mapsto> 0),
                           edu_status := EduReadyToInterpret\<rparr>),
               [UpdateCompleted total_steps])
            else
              then_do (edu_compile_loop e (length (compile_cmds spec)) st1 0 1 (compile_cmds spec))
                (\<lambda>(st2, compile_time).
                   if edu_failed st2 then
                     (Returns (st2\<lparr>edu_timings := (edu_timings st2)(TCompile \<mapsto> compile_time)\<rparr>),
                      [])
                   else
                     (Returns (st2\<lparr>edu_timings := (edu_timings st2)(TCompile \<mapsto> compile_time),
                                  edu_status := EduCompilationComplete\<rparr>),
                      [UpdateCompleted total_steps]))))))"

text \<open>The literals of lines 352 and 356.\<close>

definition edu_no_output :: pystr where
  "edu_no_output = ascii ''<no output>''"

definition edu_execution_failed :: pystr where
  "edu_execution_failed = ascii ''Execution failed''"

text \<open>One pass of the Step 3 loop of \<open>main\<close> (educational_hello.py 341-358) for one language.\<close>

definition edu_run_phase :: "env \<Rightarrow> LanguageSpec \<Rightarrow> LanguageState \<Rightarrow> LanguageState action" where
  "edu_run_phase e spec st =
     (if edu_failed st then (Returns (st\<lparr>edu_status := EduSkipped\<rparr>), [])
      else
        then_do (edu_run_subprocess e (run_cmd spec) (WORKSPACE e))
          (\<lambda>(ok, elapsed, stdout_text, stderr_text).
             (let st1 = st\<lparr>edu_status := EduExecuting,
                           edu_timings := (edu_timings st)(TRun \<mapsto> elapsed)\<rparr>
              in if ok then
                   (Returns (st1\<lparr>edu_status := EduExecutionSucceeded,
                                edu_stdout := py_or stdout_text edu_no_output,
                                edu_stderr := stderr_text\<rparr>), [])
                 else
                   (Returns (st1\<lparr>edu_status := EduExecutionError,
                                edu_stderr := py_or stderr_text (py_or stdout_text edu_execution_failed),
                                edu_failed := True\<rparr>), []))))"

section \<open>multi_lang_hello.py\<close>

definition ml_run_args :: "cmd \<Rightarrow> pystr \<Rightarrow> run_args" where
  "ml_run_args c d =
     \<lparr>args = c, cwd = d, stdout_pipe = True, stderr_pipe = True, text_mode = True,
      check = True, timeout = None\<rparr>"

text \<open>
  \<open>run_command\<close> (multi_lang_hello.py 94-125): \<open>(ok, elapsed)\<close>.  What it prints is left
  out.  No timeout is passed.
\<close>

definition run_command :: "env \<Rightarrow> cmd \<Rightarrow> pystr \<Rightarrow> (bool \<times> rat) action" where
  "run_command e c d =
     (case subprocess_run e (ml_run_args c d) of
        (Returns (CompletedProcess rc out err, elapsed), fx) \<Rightarrow> (Returns (True, elapsed), fx)
      | (Returns (FileNotFoundError msg, elapsed), fx) \<Rightarrow> (Returns (False, elapsed), fx)
      | (Returns (CalledProcessError rc out err, elapsed), fx) \<Rightarrow> (Returns (False, elapsed), fx)
      | (Returns (TimeoutExpired, elapsed), fx) \<Rightarrow> (Raises (ascii ''TimeoutExpired''), fx)
      | (Raises msg, fx) \<Rightarrow> (Raises msg, fx)
      | (Blocks, fx) \<Rightarrow> (Blocks, fx))"

text \<open>\<open>write_source_file\<close> (multi_lang_hello.py 128-140).\<close>

definition write_source_file :: "env \<Rightarrow> LanguageSpec \<Rightarrow> bool action" where
  "write_source_file e lang =
     (case write_text e (filename lang) of
        (elapsed, None) \<Rightarrow> (Returns True, [WriteFile (filename lang)])
      | (elapsed, Some msg) \<Rightarrow> (Returns False, [WriteFile (filename lang)]))"

text \<open>\<open>run_compile_steps\<close> (multi_lang_hello.py 143-150).\<close>

fun run_compile_steps_loop :: "env \<Rightarrow> cmd list \<Rightarrow> bool action" where
  "run_compile_steps_loop e [] = (Returns True, [])"
| "run_compile_steps_loop e (c # cs) =
     then_do (run_command e c (WORKSPACE e)) (\<lambda>(ok, elapsed).
       if \<not> ok then (Returns False, []) else run_compile_steps_loop e cs)"

definition run_compile_steps :: "env \<Rightarrow> LanguageSpec \<Rightarrow> bool action" where
  "run_compile_steps e lang = run_compile_steps_loop e (compile_cmds lang)"

text \<open>\<open>run_execution\<close> (multi_lang_hello.py 153-154).\<close>

definition run_execution :: "env \<Rightarrow> LanguageSpec \<Rightarrow> unit action" where
  "run_execution e lang =
     then_do (run_command e (run_cmd lang) (WORKSPACE e)) (\<lambda>r. (Returns (), []))"

text \<open>\<open>process_language\<close> (multi_lang_hello.py 178-190).\<close>

definition process_language :: "env \<Rightarrow> LanguageSpec \<Rightarrow> unit action" where
  "process_language e lang =
     then_do (write_source_file e lang) (\<lambda>written.
       if \<not> written then (Returns (), [])
       else if compile_cmds lang \<noteq> [] then
         then_do (run_compile_steps e lang) (\<lambda>compiled.
           if \<not> compiled then (Returns (), []) else run_execution e lang)
       else run_execution e lang)"

text \<open>
  The part of the file system \<open>main\<close> changes: whether the workspace directory exists, and
  how many times \<open>shutil.rmtree\<close> has been called (the environment says which calls succeed).
\<close>

record fs =
  ws_exists :: bool
  rmtree_calls :: nat

text \<open>\<open>cleanup_workspace\<close> (multi_lang_hello.py 157-166).\<close>

definition cleanup_workspace :: "env \<Rightarrow> fs \<Rightarrow> bool \<times> fs \<times> effect list" where
  "cleanup_workspace e f =
     (if \<not> ws_exists f then (True, f, [])
      else if rmtree_ok e (rmtree_calls f)
        then (True, f\<lparr>ws_exists := False, rmtree_calls := Suc (rmtree_calls f)\<rparr>, [Rmtree])
        else (False, f\<lparr>rmtree_calls := Suc (rmtree_calls f)\<rparr>, [Rmtree]))"

text \<open>The loop of \<open>main\<close> over \<open>LANGUAGES\<close> (multi_lang_hello.py 202-203).\<close>

fun process_all :: "env \<Rightarrow> LanguageSpec list \<Rightarrow> unit action" where
  "process_all e [] = (Returns (), [])"
| "process_all e (lang # langs) =
     then_do (process_language e lang) (\<lambda>_. process_all e langs)"

text \<open>
  \<open>main\<close> (multi_lang_hello.py 193-210) on the table \<open>langs\<close>: how it ends (returning
  whether the final cleanup reported success), the file system it leaves, and its effects.
  A stale workspace is removed and the workspace created before the \<open>try\<close>; the
  \<open>finally\<close> clause runs the cleanup both when the loop ends and when an exception leaves
  it, and the exception then leaves \<open>main\<close>.
\<close>

definition main :: "env \<Rightarrow> LanguageSpec list \<Rightarrow> fs \<Rightarrow> bool outcome \<times> fs \<times> effect list" where
  "main e langs f0 =
     (case cleanup_workspace e f0 of
        (_, f1, fx1) \<Rightarrow>
          (case mkdir_workspace e of
             (Raises msg, fx2) \<Rightarrow> (Raises msg, f1, fx1 @ fx2)
           | (Blocks, fx2) \<Rightarrow> (Blocks, f1, fx1 @ fx2)
           | (Returns _, fx2) \<Rightarrow>
               (let f2 = f1\<lparr>ws_exists := True\<rparr> in
                case process_all e langs of
                  (Blocks, fx) \<Rightarrow> (Blocks, f2, fx1 @ fx2 @ fx)
                | (Returns _, fx) \<Rightarrow>
                    (case cleanup_workspace e f2 of
                       (cleaned, f3, fx3) \<Rightarrow> (Returns cleaned, f3, fx1 @ fx2 @ fx @ fx3))
                | (Raises msg, fx) \<Rightarrow>
                    (case cleanup_workspace e f2 of
                       (cleaned, f3, fx3) \<Rightarrow> (Raises msg, f3, fx1 @ fx2 @ fx @ fx3)))))"

section \<open>animated_hello.py\<close>

definition anim_run_args :: "cmd \<Rightarrow> pystr \<Rightarrow> run_args" where
  "anim_run_args c d =
     \<lparr>args = c, cwd = d, stdout_pipe = True, stderr_pipe = True, text_mode = True,
      check = True, timeout = Some 30\<rparr>"

text \<open>The literals of lines 684 and 686 (Korean text): command not found, timeout.\<close>

definition anim_not_found_prefix :: pystr where
  "anim_not_found_prefix =
     [0xba85, 0xb839, 0xc5b4, 0xb97c, 0x20, 0xcc3e, 0xc744, 0x20, 0xc218, 0x20, 0xc5c6, 0xc74c,
      0x3a, 0x20]"

definition anim_timeout_msg :: pystr where
  "anim_timeout_msg = [0xd0c0, 0xc784, 0xc544, 0xc6c3]"

text \<open>\<open>run_subprocess\<close> (animated_hello.py 671-686).\<close>

definition anim_run_subprocess :: "env \<Rightarrow> cmd \<Rightarrow> pystr \<Rightarrow> stage_result action" where
  "anim_run_subprocess e c d =
     (case subprocess_run e (anim_run_args c d) of
        (Returns (CompletedProcess rc out err, elapsed), fx) \<Rightarrow>
          (Returns (True, elapsed, strip out, strip err), fx)
      | (Returns (CalledProcessError rc out err, elapsed), fx) \<Rightarrow>
          (Returns (False, elapsed, py_or out [], py_or err (str_CalledProcessError e c rc)), fx)
      | (Returns (FileNotFoundError msg, elapsed), fx) \<Rightarrow>
          (case c of
             [] \<Rightarrow> (Raises index_error, fx)
           | c0 # _ \<Rightarrow> (Returns (False, elapsed, [], anim_not_found_prefix @ c0), fx))
      | (Returns (TimeoutExpired, elapsed), fx) \<Rightarrow>
          (Returns (False, elapsed, [], anim_timeout_msg), fx)
      | (Raises msg, fx) \<Rightarrow> (Raises msg, fx)
      | (Blocks, fx) \<Rightarrow> (Blocks, fx))"

text \<open>\<open>' '.join(cmd)\<close>.\<close>

fun join_space :: "cmd \<Rightarrow> pystr" where
  "join_space [] = []"
| "join_space [x] = x"
| "join_space (x # y # ys) = x @ [32] @ join_space (y # ys)"

text \<open>\<open>s.replace('./', '')\<close>: code points 46 and 47.\<close>

fun remove_dotslash :: "pystr \<Rightarrow> pystr" where
  "remove_dotslash [] = []"
| "remove_dotslash [x] = [x]"
| "remove_dotslash (x # y # ys) =
     (if x = 46 \<and> y = 47 then remove_dotslash ys else x # remove_dotslash (y # ys))"

text \<open>\<open>WORKSPACE / name\<close> of pathlib: an absolute \<open>name\<close> replaces the directory.\<close>

definition path_join :: "pystr \<Rightarrow> pystr \<Rightarrow> pystr" where
  "path_join d p = (case p of [] \<Rightarrow> d | x # _ \<Rightarrow> if x = 47 then p else d @ [47] @ p)"

text \<open>
  The loop over the compile commands (animated_hello.py 742-756), for the language at index
  \<open>idx\<close>: \<open>(failed, compile_total, last_cmd_str)\<close>.
\<close>

fun anim_compile_loop ::
  "env \<Rightarrow> nat \<Rightarrow> rat \<Rightarrow> pystr \<Rightarrow> cmd list \<Rightarrow> (bool \<times> rat \<times> pystr) action" where
  "anim_compile_loop e idx compile_total last_cmd_str [] =
     (Returns (False, compile_total, last_cmd_str), [])"
| "anim_compile_loop e idx compile_total last_cmd_str (c # cs) =
     (let cmd_str = join_space c in
      then_do (emit [Send (EvCompileStart idx cmd_str)]) (\<lambda>_.
      then_do (anim_run_subprocess e c (WORKSPACE e)) (\<lambda>(success, elapsed, out, err).
        if \<not> success then
          (Returns (True, compile_total + elapsed, cmd_str),
           [Send (EvCompileError idx cmd_str (take 100 err)),
            Send (EvStatus idx AnimCompileFailed)])
        else anim_compile_loop e idx (compile_total + elapsed) cmd_str cs)))"

text \<open>
  One pass of the Step 2 loop of \<open>run_animation\<close> (animated_hello.py 727-767): the timings
  of the language.  The write is outside any \<open>try\<close>: its \<open>OSError\<close> leaves
  \<open>run_animation\<close>.
\<close>

definition anim_compile_lang :: "env \<Rightarrow> nat \<Rightarrow> LanguageSpec \<Rightarrow> timings action" where
  "anim_compile_lang e idx lang =
     then_do (emit [Send (EvStatus idx AnimCompiling), Send (EvProgress idx 30),
                    WriteFile (filename lang)]) (\<lambda>_.
       case write_text e (filename lang) of
         (elapsed, Some msg) \<Rightarrow> (Raises msg, [])
       | (elapsed, None) \<Rightarrow>
           then_do (anim_compile_loop e idx 0 [] (compile_cmds lang))
             (\<lambda>(failed, compile_total, last_cmd_str).
                (Returns ((\<lambda>k. None)(TWrite \<mapsto> elapsed, TCompile \<mapsto> compile_total)),
                 if \<not> failed then
                   [Send (EvCompileDone idx last_cmd_str compile_total),
                    Send (EvStatus idx AnimCompileDone), Send (EvProgress idx 70)]
                 else [Send (EvProgress idx 100)])))"

text \<open>The run stage of one language in Step 3 (animated_hello.py 779-801).\<close>

definition anim_run_stage :: "env \<Rightarrow> nat \<Rightarrow> LanguageSpec \<Rightarrow> timings \<Rightarrow> timings action" where
  "anim_run_stage e idx lang t =
     (let run_cmd_str = join_space (run_cmd lang) in
      then_do (emit [Send (EvStatus idx AnimRunning), Send (EvRunStart idx run_cmd_str),
                     Send (EvProgress idx 85)]) (\<lambda>_.
      then_do (anim_run_subprocess e (run_cmd lang) (WORKSPACE e))
        (\<lambda>(success, elapsed, out, err).
           (let t' = t(TRun \<mapsto> elapsed) in
            (Returns t',
             (if success then
                [Send (EvRunDone idx run_cmd_str out elapsed), Send (EvStatus idx AnimRunDone)]
              else
                [Send (EvRunError idx run_cmd_str (take 100 err)),
                 Send (EvStatus idx AnimRunFailed)]) @
             [Send (EvProgress idx 100),
              Send (EvTiming idx (get0 t' TWrite) (get0 t' TCompile) (get0 t' TRun)
                      (sum_values t'))])))))"

text \<open>
  One pass of the Step 3 loop of \<open>run_animation\<close> (animated_hello.py 774-801): the skip
  test of line 775, then the run stage.  \<open>run_cmd[0]\<close> is read only when the compile
  timing is 0.
\<close>

definition anim_run_lang :: "env \<Rightarrow> nat \<Rightarrow> LanguageSpec \<Rightarrow> timings \<Rightarrow> timings action" where
  "anim_run_lang e idx lang t =
     (if get0 t TCompile = 0 then
        (case run_cmd lang of
           [] \<Rightarrow> (Raises index_error, [])
         | c0 # _ \<Rightarrow>
             if \<not> path_exists e (path_join (WORKSPACE e) (remove_dotslash c0))
             then (Returns t, [])
             else anim_run_stage e idx lang t)
      else anim_run_stage e idx lang t)"

fun anim_step2 :: "env \<Rightarrow> nat \<Rightarrow> LanguageSpec list \<Rightarrow> timings list action" where
  "anim_step2 e idx [] = (Returns [], [])"
| "anim_step2 e idx (lang # langs) =
     then_do (anim_compile_lang e idx lang) (\<lambda>t.
     then_do (anim_step2 e (Suc idx) langs) (\<lambda>ts. (Returns (t # ts), [])))"

fun anim_step3 :: "env \<Rightarrow> nat \<Rightarrow> LanguageSpec list \<Rightarrow> timings list \<Rightarrow> timings list action" where
  "anim_step3 e idx (lang # langs) (t # ts) =
     then_do (anim_run_lang e idx lang t) (\<lambda>t'.
     then_do (anim_step3 e (Suc idx) langs ts) (\<lambda>ts'. (Returns (t' # ts'), [])))"
| "anim_step3 e idx langs ts = (Returns [], [])"

text \<open>
  \<open>run_animation\<close> from Step 2 on (animated_hello.py 724-815), on the table \<open>langs\<close>.
  Step 1 (698-722) launches nothing: it queues, for each language, the progress 0 and
  then the typing percentages up to 30.  The pauses (\<open>time.sleep\<close>) are left out.
\<close>

definition run_animation :: "env \<Rightarrow> LanguageSpec list \<Rightarrow> unit action" where
  "run_animation e langs =
     then_do (emit [Send (EvStep 2)]) (\<lambda>_.
     then_do (anim_step2 e 0 langs) (\<lambda>ts.
     then_do (emit [Send (EvStep 3)]) (\<lambda>_.
     then_do (anim_step3 e 0 langs ts) (\<lambda>ts'.
       (let success_count = length (filter (\<lambda>t. get0 t TRun > 0) ts') in
        emit [Send (EvStep 4), Rmtree, Send (EvDone success_count (length langs))])))))"

text \<open>The progress percentages queued for the language at index \<open>idx\<close>, in order.\<close>

fun progress_events :: "nat \<Rightarrow> effect list \<Rightarrow> int list" where
  "progress_events idx [] = []"
| "progress_events idx (Send (EvProgress i p) # fx) =
     (if i = idx then p # progress_events idx fx else progress_events idx fx)"
| "progress_events idx (x # fx) = progress_events idx fx"

text \<open>The processes launched, in order.\<close>

fun launches :: "effect list \<Rightarrow> cmd list" where
  "launches [] = []"
| "launches (Launch a # fx) = args a # launches fx"
| "launches (x # fx) = launches fx"

section \<open>graphical_hello.py\<close>

definition graph_run_args :: "cmd \<Rightarrow> pystr \<Rightarrow> run_args" where
  "graph_run_args c d =
     \<lparr>args = c, cwd = d, stdout_pipe = True, stderr_pipe = True, text_mode = True,
      check = True, timeout = Some 30\<rparr>"

text \<open>\<open>_run_subprocess\<close> (graphical_hello.py 487-510).\<close>

definition graph_run_subprocess :: "env \<Rightarrow> cmd \<Rightarrow> pystr \<Rightarrow> stage_result action" where
  "graph_run_subprocess e c d =
     (case subprocess_run e (graph_run_args c d) of
        (Returns (CompletedProcess rc out err, elapsed), fx) \<Rightarrow>
          (Returns (True, elapsed, strip out, strip err), fx)
      | (Returns (CalledProcessError rc out err, elapsed), fx) \<Rightarrow>
          (Returns (False, elapsed, py_or out [], py_or err (str_CalledProcessError e c rc)), fx)
      | (Returns (FileNotFoundError msg, elapsed), fx) \<Rightarrow>
          (Returns (False, elapsed, [], msg), fx)
      | (Returns (TimeoutExpired, elapsed), fx) \<Rightarrow>
          (Returns (False, elapsed, [], timeout_30_msg), fx)
      | (Raises msg, fx) \<Rightarrow> (Raises msg, fx)
      | (Blocks, fx) \<Rightarrow> (Blocks, fx))"

text \<open>
  The values of \<open>state.status\<close> (graphical_hello.py 72, 518-579): waiting, writing the source,
  write failed, compiling, compile failed, running, run done, run failed.
\<close>

datatype graph_status =
    GWaiting | GWriting | GWriteFailed | GCompiling | GCompileFailed | GRunning | GRunDone
  | GRunFailed

text \<open>The \<open>LanguageState\<close> dataclass of graphical_hello.py (70-80).\<close>

record GLanguageState =
  g_status :: graph_status
  g_progress :: rat
  g_output :: pystr
  g_error :: pystr
  g_write_time :: rat
  g_compile_time :: rat
  g_run_time :: rat
  g_total_time :: rat
  g_failed :: bool

definition graph_initial :: GLanguageState where
  "graph_initial =
     \<lparr>g_status = GWaiting, g_progress = 0, g_output = [], g_error = [], g_write_time = 0,
      g_compile_time = 0, g_run_time = 0, g_total_time = 0, g_failed = False\<rparr>"

text \<open>
  The compile loop of \<open>_execute_language\<close> (graphical_hello.py 544-558); \<open>i\<close> counts from 0,
  \<open>n\<close> is \<open>len(spec.compile_cmds)\<close>.  \<open>Inl\<close> is the early return at a failing step.
\<close>

fun graph_compile_loop ::
  "env \<Rightarrow> nat \<Rightarrow> GLanguageState \<Rightarrow> rat \<Rightarrow> nat \<Rightarrow> cmd list \<Rightarrow>
     (GLanguageState + GLanguageState \<times> rat) action" where
  "graph_compile_loop e n st compile_total i [] = (Returns (Inr (st, compile_total)), [])"
| "graph_compile_loop e n st compile_total i (c # cs) =
     then_do (graph_run_subprocess e c (WORKSPACE e)) (\<lambda>(success, elapsed, out, err).
       if \<not> success then
         (Returns (Inl (st\<lparr>g_status := GCompileFailed,
                            g_error := py_or err out,
                            g_failed := True,
                            g_compile_time := compile_total + elapsed,
                            g_total_time := g_write_time st + (compile_total + elapsed)\<rparr>)),
          [After])
       else
         (let st1 = st\<lparr>g_progress := 40 + 30 * of_nat (i + 1) / of_nat n\<rparr> in
          then_do (emit [Assign (g_progress st1), After]) (\<lambda>_.
            graph_compile_loop e n st1 (compile_total + elapsed) (i + 1) cs)))"

text \<open>Stage 3 of \<open>_execute_language\<close> (graphical_hello.py 562-584).\<close>

definition graph_run_stage :: "env \<Rightarrow> LanguageSpec \<Rightarrow> GLanguageState \<Rightarrow> GLanguageState action" where
  "graph_run_stage e spec st =
     (let st1 = st\<lparr>g_progress := 70\<rparr>;
          st2 = st1\<lparr>g_status := GRunning, g_progress := 85\<rparr>
      in then_do (emit [Assign 70, After, Assign 85, After]) (\<lambda>_.
         then_do (graph_run_subprocess e (run_cmd spec) (WORKSPACE e))
           (\<lambda>(success, elapsed, out, err).
              (let st3 = st2\<lparr>g_run_time := elapsed\<rparr>;
                   st4 = st3\<lparr>g_total_time := g_write_time st3 + g_compile_time st3 + g_run_time st3\<rparr>;
                   st5 = (if success then
                            st4\<lparr>g_status := GRunDone, g_output := py_or out no_output_msg,
                                g_progress := 100\<rparr>
                          else
                            st4\<lparr>g_status := GRunFailed, g_error := py_or err out,
                                g_failed := True, g_progress := 100\<rparr>)
               in (Returns st5, [Assign 100, After])))))"

text \<open>
  \<open>_execute_language\<close> (graphical_hello.py 512-584) for \<open>spec = LANGUAGES[index]\<close> and
  \<open>state = self.states[index]\<close>.
\<close>

definition graph_execute_language ::
  "env \<Rightarrow> LanguageSpec \<Rightarrow> GLanguageState \<Rightarrow> GLanguageState action" where
  "graph_execute_language e spec st =
     (let st1 = st\<lparr>g_status := GWriting, g_progress := 10\<rparr> in
      then_do (emit [Assign 10, After, WriteFile (filename spec)]) (\<lambda>_.
        case write_text e (filename spec) of
          (elapsed, Some msg) \<Rightarrow>
            (Returns (st1\<lparr>g_status := GWriteFailed, g_error := msg, g_failed := True\<rparr>), [After])
        | (elapsed, None) \<Rightarrow>
            (let st2 = st1\<lparr>g_write_time := elapsed, g_progress := 25\<rparr> in
             then_do (emit [Assign 25, After]) (\<lambda>_.
               if compile_cmds spec \<noteq> [] then
                 (let st3 = st2\<lparr>g_status := GCompiling, g_progress := 40\<rparr> in
                  then_do (emit [Assign 40, After]) (\<lambda>_.
                  then_do (graph_compile_loop e (length (compile_cmds spec)) st3 0 0
                             (compile_cmds spec))
                    (\<lambda>x. case x of
                       Inl st' \<Rightarrow> (Returns st', [])
                     | Inr (st', compile_total) \<Rightarrow>
                         graph_run_stage e spec (st'\<lparr>g_compile_time := compile_total\<rparr>))))
               else graph_run_stage e spec st2))))"

text \<open>The values assigned to \<open>state.progress\<close>, in order.\<close>

fun assignments :: "effect list \<Rightarrow> rat list" where
  "assignments [] = []"
| "assignments (Assign p # fx) = p # assignments fx"
| "assignments (x # fx) = assignments fx"

text \<open>All the ways the effects of concurrent threads can follow one another.\<close>

fun all_shuffles :: "'a list list \<Rightarrow> 'a list set" where
  "all_shuffles [] = {[]}"
| "all_shuffles (t # ts) = (\<Union>u \<in> all_shuffles ts. shuffles t u)"

text \<open>
  The threads \<open>run_all\<close> starts, one per language (graphical_hello.py 608-611), each with
  how it ends and its effects; every language starts from a fresh state (601).
\<close>

definition graph_threads :: "env \<Rightarrow> LanguageSpec list \<Rightarrow> GLanguageState action list" where
  "graph_threads e langs = map (\<lambda>spec. graph_execute_language e spec graph_initial) langs"

text \<open>
  \<open>run_all\<close> (graphical_hello.py 603-627): the threads run concurrently and are all joined
  (a thread that an exception leaves has ended; one that never ends is never joined), then
  \<open>shutil.rmtree\<close> is tried once, any exception of it being caught.  The result is the
  cleanup status, the file system afterwards and the set of possible effect sequences.
\<close>

definition run_all :: "env \<Rightarrow> LanguageSpec list \<Rightarrow> fs \<Rightarrow> bool outcome \<times> fs \<times> effect list set" where
  "run_all e langs f =
     (let threads = graph_threads e langs;
          bodies = all_shuffles (map snd threads)
      in if Blocks \<in> fst ` set threads then (Blocks, f, bodies)
         else if ws_exists f \<and> rmtree_ok e (rmtree_calls f) then
           (Returns True, f\<lparr>ws_exists := False, rmtree_calls := Suc (rmtree_calls f)\<rparr>,
            (\<lambda>b. b @ [Rmtree]) ` bodies)
         else
           (Returns False, f\<lparr>rmtree_calls := Suc (rmtree_calls f)\<rparr>,
            (\<lambda>b. b @ [Rmtree]) ` bodies))"

text \<open>
  The run \<open>_start_execution\<close> starts (graphical_hello.py 586-630): a workspace that exists
  is removed, outside any \<open>try\<close>; the workspace is created; then \<open>run_all\<close> runs in its
  own thread.
\<close>

definition start_execution ::
  "env \<Rightarrow> LanguageSpec list \<Rightarrow> fs \<Rightarrow> bool outcome \<times> fs \<times> effect list set" where
  "start_execution e langs f0 =
     (if ws_exists f0 \<and> \<not> rmtree_ok e (rmtree_calls f0) then
        (Raises (ascii ''OSError''), f0\<lparr>rmtree_calls := Suc (rmtree_calls f0)\<rparr>, {[Rmtree]})
      else
        (let pre = (if ws_exists f0 then [Rmtree] else []);
             f1 = (if ws_exists f0
                   then f0\<lparr>ws_exists := False, rmtree_calls := Suc (rmtree_calls f0)\<rparr> else f0)
         in case mkdir_workspace e of
              (Raises msg, fx) \<Rightarrow> (Raises msg, f1, {pre @ fx})
            | (Blocks, fx) \<Rightarrow> (Blocks, f1, {pre @ fx})
            | (Returns _, fx) \<Rightarrow>
                (case run_all e langs (f1\<lparr>ws_exists := True\<rparr>) of
                   (r, f2, traces) \<Rightarrow> (r, f2, (\<lambda>t. pre @ fx @ t) ` traces))))"

text \<open>
  The counts \<open>_finish_execution\<close> (graphical_hello.py 632-641) puts in the status line:
  \<open>(success_count, fail_count, total_time)\<close>.
\<close>

definition finish_execution :: "GLanguageState list \<Rightarrow> rat \<Rightarrow> nat \<times> nat \<times> rat" where
  "finish_execution states total_time =
     (let success_count = length (filter (\<lambda>s. \<not> g_failed s) states);
          fail_count = length states - success_count
      in (success_count, fail_count, total_time))"

section \<open>Stage outcomes\<close>

text \<open>
  Whether a command stage of educational_hello.py or animated_hello.py succeeded or failed,
  read off the \<open>success\<close> flag the front end's own executor returns for the command in the
  workspace, and the \<open>stdout\<close> and \<open>stderr\<close> it returns.
\<close>

definition edu_stage_ok :: "env \<Rightarrow> cmd \<Rightarrow> bool" where
  "edu_stage_ok e c \<longleftrightarrow>
     (case fst (edu_run_subprocess e c (WORKSPACE e)) of
        Returns (ok, _) \<Rightarrow> ok
      | _ \<Rightarrow> False)"

definition edu_stage_failed :: "env \<Rightarrow> cmd \<Rightarrow> bool" where
  "edu_stage_failed e c \<longleftrightarrow>
     (case fst (edu_run_subprocess e c (WORKSPACE e)) of
        Returns (ok, _) \<Rightarrow> \<not> ok
      | _ \<Rightarrow> False)"

definition anim_stage_ok :: "env \<Rightarrow> cmd \<Rightarrow> bool" where
  "anim_stage_ok e c \<longleftrightarrow>
     (case fst (anim_run_subprocess e c (WORKSPACE e)) of
        Returns (success, _) \<Rightarrow> success
      | _ \<Rightarrow> False)"

definition anim_stage_failed :: "env \<Rightarrow> cmd \<Rightarrow> bool" where
  "anim_stage_failed e c \<longleftrightarrow>
     (case fst (anim_run_subprocess e c (WORKSPACE e)) of
        Returns (success, _) \<Rightarrow> \<not> success
      | _ \<Rightarrow> False)"

definition edu_stage_stdout :: "env \<Rightarrow> cmd \<Rightarrow> pystr" where
  "edu_stage_stdout e c =
     (case fst (edu_run_subprocess e c (WORKSPACE e)) of
        Returns (_, _, out, _) \<Rightarrow> out
      | _ \<Rightarrow> [])"

definition edu_stage_stderr :: "env \<Rightarrow> cmd \<Rightarrow> pystr" where
  "edu_stage_stderr e c =
     (case fst (edu_run_subprocess e c (WORKSPACE e)) of
        Returns (_, _, _, err) \<Rightarrow> err
      | _ \<Rightarrow> [])"

definition anim_stage_stderr :: "env \<Rightarrow> cmd \<Rightarrow> pystr" where
  "anim_stage_stderr e c =
     (case fst (anim_run_subprocess e c (WORKSPACE e)) of
        Returns (_, _, _, err) \<Rightarrow> err
      | _ \<Rightarrow> [])"

text \<open>
  The same, said of the command itself, for the front ends with the 30-second limit: a
  command succeeds when it exits with status 0 within 30 seconds; it fails when it exits
  with another status, runs for more than 30 seconds or for ever, or cannot be found; it
  cannot be run when \<open>subprocess.run\<close> raises any other exception for it.
\<close>

definition succeeds_in_30 :: "env \<Rightarrow> cmd \<Rightarrow> bool" where
  "succeeds_in_30 e c \<longleftrightarrow>
     c \<noteq> [] \<and>
     (case behaviour e c of
        Exits d rc out err \<Rightarrow> d \<le> 30 \<and> rc = 0
      | Hangs \<Rightarrow> False
      | NotFound d msg \<Rightarrow> False
      | RunError d msg \<Rightarrow> False)"

definition fails_in_30 :: "env \<Rightarrow> cmd \<Rightarrow> bool" where
  "fails_in_30 e c \<longleftrightarrow>
     c \<noteq> [] \<and>
     (case behaviour e c of
        Exits d rc out err \<Rightarrow> 30 < d \<or> rc \<noteq> 0
      | Hangs \<Rightarrow> True
      | NotFound d msg \<Rightarrow> True
      | RunError d msg \<Rightarrow> False)"

definition cannot_run :: "env \<Rightarrow> cmd \<Rightarrow> bool" where
  "cannot_run e c \<longleftrightarrow>
     c = [] \<or>
     (case behaviour e c of
        Exits d rc out err \<Rightarrow> False
      | Hangs \<Rightarrow> False
      | NotFound d msg \<Rightarrow> False
      | RunError d msg \<Rightarrow> True)"

definition write_failed :: "env \<Rightarrow> LanguageSpec \<Rightarrow> bool" where
  "write_failed e spec \<longleftrightarrow> snd (write_text e (filename spec)) \<noteq> None"

text \<open>Whether the workspace directory is there, or can be created, when it is needed.\<close>

definition workspace_ready :: "env \<Rightarrow> bool" where
  "workspace_ready e \<longleftrightarrow> path_exists e (WORKSPACE e) \<or> mkdir_error e = None"




text \<open>Counting effects of one kind.\<close>

fun advances :: "effect list \<Rightarrow> nat" where
  "advances [] = 0"
| "advances (Advance # fx) = Suc (advances fx)"
| "advances (x # fx) = advances fx"

fun rmtrees :: "effect list \<Rightarrow> nat" where
  "rmtrees [] = 0"
| "rmtrees (Rmtree # fx) = Suc (rmtrees fx)"
| "rmtrees (x # fx) = rmtrees fx"

fun compile_starts :: "effect list \<Rightarrow> nat" where
  "compile_starts [] = 0"
| "compile_starts (Send (EvCompileStart i c) # fx) = Suc (compile_starts fx)"
| "compile_starts (x # fx) = compile_starts fx"

fun compile_dones :: "effect list \<Rightarrow> nat" where
  "compile_dones [] = 0"
| "compile_dones (Send (EvCompileDone i c t) # fx) = Suc (compile_dones fx)"
| "compile_dones (x # fx) = compile_dones fx"

fun compile_errors :: "effect list \<Rightarrow> event list" where
  "compile_errors [] = []"
| "compile_errors (Send (EvCompileError i c m) # fx) = EvCompileError i c m # compile_errors fx"
| "compile_errors (x # fx) = compile_errors fx"

fun run_errors :: "effect list \<Rightarrow> event list" where
  "run_errors [] = []"
| "run_errors (Send (EvRunError i c m) # fx) = EvRunError i c m # run_errors fx"
| "run_errors (x # fx) = run_errors fx"

section \<open>The language tables and some environments\<close>

text \<open>
  The commands of the four languages of web_hello.py, animated_hello.py, graphical_hello.py
  and educational_hello.py, and the interpreted language of multi_lang_hello.py.
\<close>

definition gcc_cmd :: cmd where
  "gcc_cmd = [ascii ''gcc'', ascii ''hello.c'', ascii ''-o'', ascii ''hello_c'']"

definition gpp_cmd :: cmd where
  "gpp_cmd = [ascii ''g++'', ascii ''hello.cpp'', ascii ''-o'', ascii ''hello_cpp'']"

definition rustc_cmd :: cmd where
  "rustc_cmd = [ascii ''rustc'', ascii ''hello.rs'', ascii ''-o'', ascii ''hello_rust'']"

definition nasm_cmd :: cmd where
  "nasm_cmd = [ascii ''nasm'', ascii ''-f'', ascii ''elf64'', ascii ''hello.asm'', ascii ''-o'',
               ascii ''hello.o'']"

definition ld_cmd :: cmd where
  "ld_cmd = [ascii ''ld'', ascii ''hello.o'', ascii ''-o'', ascii ''hello_asm'']"

definition C_spec :: LanguageSpec where
  "C_spec = \<lparr>name = ascii ''C'', filename = ascii ''hello.c'', compile_cmds = [gcc_cmd],
             run_cmd = [ascii ''./hello_c'']\<rparr>"

definition Cpp_spec :: LanguageSpec where
  "Cpp_spec = \<lparr>name = ascii ''C++'', filename = ascii ''hello.cpp'', compile_cmds = [gpp_cmd],
               run_cmd = [ascii ''./hello_cpp'']\<rparr>"

definition Rust_spec :: LanguageSpec where
  "Rust_spec = \<lparr>name = ascii ''Rust'', filename = ascii ''hello.rs'', compile_cmds = [rustc_cmd],
                run_cmd = [ascii ''./hello_rust'']\<rparr>"

definition Assembly_spec :: LanguageSpec where
  "Assembly_spec = \<lparr>name = ascii ''Assembly'', filename = ascii ''hello.asm'',
                    compile_cmds = [nasm_cmd, ld_cmd], run_cmd = [ascii ''./hello_asm'']\<rparr>"

definition Python_spec :: LanguageSpec where
  "Python_spec = \<lparr>name = ascii ''Python'', filename = ascii ''hello.py'', compile_cmds = [],
                  run_cmd = [ascii ''python3'', ascii ''hello.py'']\<rparr>"

definition LANGUAGES :: "LanguageSpec list" where
  "LANGUAGES = [C_spec, Cpp_spec, Rust_spec, Assembly_spec]"

text \<open>The table of multi_lang_hello.py (33-72).\<close>

definition X86_spec :: LanguageSpec where
  "X86_spec = Assembly_spec\<lparr>name := ascii ''x86-64 Assembly''\<rparr>"

definition ml_LANGUAGES :: "LanguageSpec list" where
  "ml_LANGUAGES = [Python_spec, C_spec, Cpp_spec, Rust_spec, X86_spec]"

text \<open>
  An environment in which every tool is installed and works: each command exits with status
  0 after a tenth of a second having printed the greeting and a newline, each write takes a
  hundredth of a second, the workspace can be created and removed, and no path exists yet.
\<close>

definition hello_out :: pystr where
  "hello_out = ascii ''Hello World'' @ [10]"

definition world_ok :: env where
  "world_ok =
     \<lparr>behaviour = (\<lambda>c. Exits (1/10) 0 hello_out []),
      write_text = (\<lambda>f. (1/100, None)),
      cpe_tail = (\<lambda>c rc. ascii ''returned non-zero exit status''),
      WORKSPACE = ascii ''/tmp/ws'',
      rmtree_ok = (\<lambda>n. True),
      path_exists = (\<lambda>p. False),
      mkdir_error = None\<rparr>"


text \<open>An environment in which one command has another behaviour.\<close>

definition with_behaviour :: "env \<Rightarrow> cmd \<Rightarrow> proc_behaviour \<Rightarrow> env" where
  "with_behaviour e c0 b = e\<lparr>behaviour := (\<lambda>c. if c = c0 then b else behaviour e c)\<rparr>"

text \<open>
  The C compiler reports a syntax error and exits with status 1 after a fifth of a second,
  so that the binary \<open>./hello_c\<close> does not exist.
\<close>

definition world_gcc_fails :: env where
  "world_gcc_fails =
     with_behaviour
       (with_behaviour world_ok gcc_cmd (Exits (1/5) 1 [] (ascii ''syntax error'')))
       [ascii ''./hello_c''] (NotFound (1/1000) (ascii ''No such file or directory''))"

text \<open>The linker fails after the assembler has succeeded.\<close>

definition world_ld_fails :: env where
  "world_ld_fails =
     with_behaviour
       (with_behaviour world_ok ld_cmd (Exits (1/5) 1 [] (ascii ''undefined reference'')))
       [ascii ''./hello_asm''] (NotFound (1/1000) (ascii ''No such file or directory''))"

text \<open>The C compiler fails and writes its diagnostics to stdout only.\<close>

definition world_gcc_stdout :: env where
  "world_gcc_stdout = with_behaviour world_ok gcc_cmd (Exits (1/5) 1 (ascii ''boom'') [])"

text \<open>The C compiler fails and ends its diagnostics with a newline.\<close>

definition world_gcc_newline :: env where
  "world_gcc_newline = with_behaviour world_ok gcc_cmd (Exits (1/5) 1 [] (ascii ''err'' @ [10]))"

text \<open>The compiled C program takes 31 seconds; the compiled C program never exits.\<close>

definition world_slow :: env where
  "world_slow = with_behaviour world_ok [ascii ''./hello_c''] (Exits 31 0 hello_out [])"

definition world_hangs :: env where
  "world_hangs = with_behaviour world_ok [ascii ''./hello_c''] Hangs"

text \<open>The compiled C program may not be executed: launching it raises \<open>PermissionError\<close>.\<close>

definition world_noexec :: env where
  "world_noexec =
     with_behaviour world_ok [ascii ''./hello_c''] (RunError (1/1000) (ascii ''Permission denied''))"

text \<open>The same as \<open>world_ok\<close>, but the workspace cannot be removed.\<close>

definition world_locked :: env where
  "world_locked = world_ok\<lparr>rmtree_ok := (\<lambda>n. False)\<rparr>"



section \<open>Sequencing\<close>

lemma then_do_Returns [simp]: "then_do (Returns x, fx) k = (fst (k x), fx @ snd (k x))"
  by (simp add: then_do_def split: prod.splits)

lemma then_do_Raises [simp]: "then_do (Raises msg, fx) k = (Raises msg, fx)"
  by (simp add: then_do_def)

lemma then_do_Blocks [simp]: "then_do (Blocks, fx) k = (Blocks, fx)"
  by (simp add: then_do_def)

lemma then_do_emit [simp]: "then_do (emit fx) k = (fst (k ()), fx @ snd (k ()))"
  by (simp add: emit_def)

lemma then_do_eq_Returns:
  "then_do m k = (Returns y, fx) \<longleftrightarrow>
     (\<exists>x fx1 fx2. m = (Returns x, fx1) \<and> k x = (Returns y, fx2) \<and> fx = fx1 @ fx2)"
proof (cases m)
  case (Pair r fx1)
  show ?thesis unfolding Pair
    by (cases r) (auto simp: prod_eq_iff)
qed

lemma then_do_eq_Blocks:
  "fst (then_do m k) = Blocks \<longleftrightarrow>
     fst m = Blocks \<or> (\<exists>x. fst m = Returns x \<and> fst (k x) = Blocks)"
proof (cases m)
  case (Pair r fx1)
  show ?thesis unfolding Pair by (cases r) auto
qed

section \<open>Reading an effect trace\<close>

lemma launches_append: "launches (fx @ fy) = launches fx @ launches fy"
  by (induction fx rule: launches.induct) auto

lemma advances_append: "advances (fx @ fy) = advances fx + advances fy"
  by (induction fx rule: advances.induct) auto

lemma rmtrees_append: "rmtrees (fx @ fy) = rmtrees fx + rmtrees fy"
  by (induction fx rule: rmtrees.induct) auto

lemma compile_starts_append: "compile_starts (fx @ fy) = compile_starts fx + compile_starts fy"
  by (induction fx rule: compile_starts.induct) auto

lemma compile_dones_append: "compile_dones (fx @ fy) = compile_dones fx + compile_dones fy"
  by (induction fx rule: compile_dones.induct) auto

lemma compile_errors_append: "compile_errors (fx @ fy) = compile_errors fx @ compile_errors fy"
  by (induction fx rule: compile_errors.induct) auto

lemma progress_events_append:
  "progress_events idx (fx @ fy) = progress_events idx fx @ progress_events idx fy"
  by (induction idx fx rule: progress_events.induct) auto


section \<open>The stage executors\<close>

lemma subprocess_run_effects: "args a \<noteq> [] \<Longrightarrow> snd (subprocess_run e a) = [Launch a]"
  by (simp add: subprocess_run_def split: proc_behaviour.splits option.splits)

lemma web_run_subprocess_effects:
  "c \<noteq> [] \<Longrightarrow> snd (web_run_subprocess e c w) = [Launch (web_run_args c w)]"
  using subprocess_run_effects [of "web_run_args c w" e]
  by (auto simp: web_run_subprocess_def web_run_args_def
      split: prod.splits outcome.splits run_outcome.splits list.splits)

lemma anim_run_subprocess_effects:
  "c \<noteq> [] \<Longrightarrow> snd (anim_run_subprocess e c w) = [Launch (anim_run_args c w)]"
  using subprocess_run_effects [of "anim_run_args c w" e]
  by (auto simp: anim_run_subprocess_def anim_run_args_def
      split: prod.splits outcome.splits run_outcome.splits list.splits)

lemma graph_run_subprocess_effects:
  "c \<noteq> [] \<Longrightarrow> snd (graph_run_subprocess e c w) = [Launch (graph_run_args c w)]"
  using subprocess_run_effects [of "graph_run_args c w" e]
  by (auto simp: graph_run_subprocess_def graph_run_args_def
      split: prod.splits outcome.splits run_outcome.splits)

lemma edu_run_subprocess_effects:
  "c \<noteq> [] \<Longrightarrow> snd (edu_run_subprocess e c w) = [Launch (edu_run_args c w)]"
  using subprocess_run_effects [of "edu_run_args c w" e]
  by (auto simp: edu_run_subprocess_def edu_run_args_def
      split: prod.splits outcome.splits run_outcome.splits)

lemma run_command_effects:
  "c \<noteq> [] \<Longrightarrow> snd (run_command e c w) = [Launch (ml_run_args c w)]"
  using subprocess_run_effects [of "ml_run_args c w" e]
  by (auto simp: run_command_def ml_run_args_def
      split: prod.splits outcome.splits run_outcome.splits)

lemma empty_command_raises:
  "web_run_subprocess e [] w = (Raises index_error, [])"
  "anim_run_subprocess e [] w = (Raises index_error, [])"
  "graph_run_subprocess e [] w = (Raises index_error, [])"
  "edu_run_subprocess e [] w = (Raises index_error, [])"
  "run_command e [] w = (Raises index_error, [])"
  by (simp_all add: web_run_subprocess_def anim_run_subprocess_def graph_run_subprocess_def
      edu_run_subprocess_def run_command_def subprocess_run_def web_run_args_def
      anim_run_args_def graph_run_args_def edu_run_args_def ml_run_args_def)

text \<open>With the 30-second limit a command succeeds, fails or cannot be run, and only one.\<close>

lemma three_ways: "succeeds_in_30 e c \<or> fails_in_30 e c \<or> cannot_run e c"
  by (cases "behaviour e c") (auto simp: succeeds_in_30_def fails_in_30_def cannot_run_def)


lemma web_succeeds:
  assumes "succeeds_in_30 e c"
  shows "\<exists>el out err. web_run_subprocess e c w =
           (Returns (True, el, out, err), [Launch (web_run_args c w)])"
  using assms
  by (cases "behaviour e c")
     (auto simp: succeeds_in_30_def web_run_subprocess_def subprocess_run_def web_run_args_def)

lemma web_fails:
  assumes "fails_in_30 e c"
  shows "\<exists>el out err. web_run_subprocess e c w =
           (Returns (False, el, out, err), [Launch (web_run_args c w)])"
  using assms
  by (cases "behaviour e c"; cases c)
     (auto simp: fails_in_30_def web_run_subprocess_def subprocess_run_def web_run_args_def)






lemma never_blocks_in_30:
  "fst (web_run_subprocess e c w) \<noteq> Blocks" "fst (anim_run_subprocess e c w) \<noteq> Blocks"
  "fst (graph_run_subprocess e c w) \<noteq> Blocks"
  by (cases "behaviour e c"; cases c;
      simp add: web_run_subprocess_def anim_run_subprocess_def graph_run_subprocess_def
        subprocess_run_def web_run_args_def anim_run_args_def graph_run_args_def)+

lemma fst_then_do_Returns:
  "fst (then_do m k) = Returns y \<longleftrightarrow> (\<exists>x. fst m = Returns x \<and> fst (k x) = Returns y)"
proof (cases m)
  case (Pair r fx1)
  show ?thesis unfolding Pair by (cases r) auto
qed




lemma strip_no_outer_space:
  "strip s = [] \<or> (\<not> py_isspace (hd (strip s)) \<and> \<not> py_isspace (last (strip s)))"
proof (cases "strip s = []")
  case True
  then show ?thesis by simp
next
  case False
  let ?a = "dropWhile py_isspace s"
  let ?b = "dropWhile py_isspace (rev ?a)"
  from False have b: "?b \<noteq> []" by (simp add: strip_def)
  then have hb: "\<not> py_isspace (hd ?b)" by (rule hd_dropWhile)
  from b have ra: "rev ?a \<noteq> []" by (metis dropWhile.simps(1))
  then have s: "dropWhile py_isspace s \<noteq> []" by (metis rev.simps(1))
  have ha: "\<not> py_isspace (hd ?a)" using s by (rule hd_dropWhile)
  have "last (strip s) = hd ?b" using b by (simp add: strip_def last_rev)
  with hb have l: "\<not> py_isspace (last (strip s))" by simp
  obtain ys where ys: "?b = ys" and sub: "\<exists>xs. rev ?a = xs @ ys"
    by (metis takeWhile_dropWhile_id)
  then obtain xs where xs: "rev ?a = xs @ ?b" by auto
  then have "?a = rev ?b @ rev xs" by (metis rev_append rev_rev_ident)
  then have "hd ?a = hd (rev ?b)" using b by (metis hd_append2 rev_is_Nil_conv)
  with ha have "\<not> py_isspace (hd (strip s))" by (simp add: strip_def)
  with l show ?thesis by simp
qed

lemma strip_hello: "strip hello_out = ascii ''Hello World''"
  by (simp add: strip_def hello_out_def ascii_def py_isspace_def)

lemma strip_Nil: "strip [] = []"
  by (simp add: strip_def)

text \<open>
  C10 (as amended).  A command that exits with status zero within the time limit is reported
  by the executors of web_hello.py, animated_hello.py and educational_hello.py with its
  stdout and stderr stripped of leading and trailing whitespace; when it exits with another
  status only educational_hello.py strips them, web_hello.py and animated_hello.py return
  the captured stdout as it is and the captured stderr as it is (or the text of the
  exception when it is empty).  The greeting followed by a newline is reported as exactly
  the greeting.
\<close>

theorem run_subprocess_strips_on_success:
  assumes "behaviour e c = Exits d rc out err" and "c \<noteq> []" and "d \<le> 30"
  shows "(rc = 0 \<longrightarrow>
            web_run_subprocess e c w =
              (Returns (True, d, strip out, strip err), [Launch (web_run_args c w)]) \<and>
            anim_run_subprocess e c w =
              (Returns (True, d, strip out, strip err), [Launch (anim_run_args c w)]) \<and>
            edu_run_subprocess e c w =
              (Returns (True, d, strip out, strip err), [Launch (edu_run_args c w)])) \<and>
         (rc \<noteq> 0 \<longrightarrow>
            edu_run_subprocess e c w =
              (Returns (False, d, strip out, strip err), [Launch (edu_run_args c w)]) \<and>
            web_run_subprocess e c w =
              (Returns (False, d, out, py_or err (str_CalledProcessError e c rc)),
               [Launch (web_run_args c w)]) \<and>
            anim_run_subprocess e c w =
              (Returns (False, d, out, py_or err (str_CalledProcessError e c rc)),
               [Launch (anim_run_args c w)])) \<and>
         (strip out = [] \<or> (\<not> py_isspace (hd (strip out)) \<and> \<not> py_isspace (last (strip out)))) \<and>
         (strip err = [] \<or> (\<not> py_isspace (hd (strip err)) \<and> \<not> py_isspace (last (strip err)))) \<and>
         strip (ascii ''Hello World'' @ [10]) = ascii ''Hello World''"
proof -
  let ?r = "if rc \<noteq> 0 then CalledProcessError rc out err else CompletedProcess rc out err"
  have web: "subprocess_run e (web_run_args c w) = (Returns (?r, d), [Launch (web_run_args c w)])"
    using assms by (simp add: subprocess_run_def web_run_args_def)
  have anim: "subprocess_run e (anim_run_args c w) =
                (Returns (?r, d), [Launch (anim_run_args c w)])"
    using assms by (simp add: subprocess_run_def anim_run_args_def)
  have edu: "subprocess_run e (edu_run_args c w) = (Returns (?r, d), [Launch (edu_run_args c w)])"
    using assms by (simp add: subprocess_run_def edu_run_args_def)
  have ok: "rc = 0 \<longrightarrow>
            web_run_subprocess e c w =
              (Returns (True, d, strip out, strip err), [Launch (web_run_args c w)]) \<and>
            anim_run_subprocess e c w =
              (Returns (True, d, strip out, strip err), [Launch (anim_run_args c w)]) \<and>
            edu_run_subprocess e c w =
              (Returns (True, d, strip out, strip err), [Launch (edu_run_args c w)])"
    by (simp add: web_run_subprocess_def anim_run_subprocess_def edu_run_subprocess_def
        web anim edu)
  have bad: "rc \<noteq> 0 \<longrightarrow>
            edu_run_subprocess e c w =
              (Returns (False, d, strip out, strip err), [Launch (edu_run_args c w)]) \<and>
            web_run_subprocess e c w =
              (Returns (False, d, out, py_or err (str_CalledProcessError e c rc)),
               [Launch (web_run_args c w)]) \<and>
            anim_run_subprocess e c w =
              (Returns (False, d, out, py_or err (str_CalledProcessError e c rc)),
               [Launch (anim_run_args c w)])"
    by (simp add: web_run_subprocess_def anim_run_subprocess_def edu_run_subprocess_def
        web anim edu py_or_def)
  have hello: "strip (ascii ''Hello World'' @ [10]) = ascii ''Hello World''"
    using strip_hello by (simp add: hello_out_def)
  from ok bad hello strip_no_outer_space [of out] strip_no_outer_space [of err]
  show ?thesis by blast
qed

theorem run_subprocess_strips_on_success_witness:
  "behaviour world_ok [ascii ''./hello_c''] = Exits (1/10) 0 hello_out [] \<and>
   [ascii ''./hello_c''] \<noteq> [] \<and> (1/10 :: rat) \<le> 30 \<and>
   web_run_subprocess world_ok [ascii ''./hello_c''] (WORKSPACE world_ok) =
     (Returns (True, 1/10, ascii ''Hello World'', []),
      [Launch (web_run_args [ascii ''./hello_c''] (WORKSPACE world_ok))])"
proof -
  have h1: "behaviour world_ok [ascii ''./hello_c''] = Exits (1/10) 0 hello_out []"
    by (simp add: world_ok_def)
  have h2: "[ascii ''./hello_c''] \<noteq> ([] :: cmd)" by simp
  have h3: "(1/10 :: rat) \<le> 30" by simp
  from run_subprocess_strips_on_success [OF h1 h2 h3, of "WORKSPACE world_ok"] h1 h2 h3
  show ?thesis by (simp add: strip_hello strip_Nil)
qed

text \<open>
  C10 as stated fails: the C compiler exits with status 1 having written \<open>err\<close> and a
  newline to stderr, and \<open>run_subprocess\<close> of web_hello.py returns that text with its
  trailing newline.
\<close>

theorem run_subprocess_unstripped_on_failure:
  "fst (web_run_subprocess world_gcc_newline gcc_cmd (ascii ''/tmp/ws'')) =
     Returns (False, 1/5, [], ascii ''err'' @ [10]) \<and>
   strip (ascii ''err'' @ [10]) \<noteq> ascii ''err'' @ [10]"
  by (simp add: web_run_subprocess_def subprocess_run_def web_run_args_def world_gcc_newline_def
      with_behaviour_def world_ok_def gcc_cmd_def py_or_def strip_def py_isspace_def ascii_def)

lemma edu_run_subprocess_Blocks:
  "c \<noteq> [] \<Longrightarrow> fst (edu_run_subprocess e c w) = Blocks \<longleftrightarrow> behaviour e c = Hangs"
  by (cases "behaviour e c")
     (auto simp: edu_run_subprocess_def subprocess_run_def edu_run_args_def)

lemma run_command_Blocks:
  "c \<noteq> [] \<Longrightarrow> fst (run_command e c w) = Blocks \<longleftrightarrow> behaviour e c = Hangs"
  by (cases "behaviour e c")
     (auto simp: run_command_def subprocess_run_def ml_run_args_def)

text \<open>
  C3 (as amended).  Every command stage launches one process with the command as argument
  vector, the working directory it was given, and stdout and stderr captured as text.
  \<open>run_subprocess\<close> of web_hello.py and of animated_hello.py and \<open>_run_subprocess\<close> of
  graphical_hello.py pass a timeout of 30 seconds: they never block, and a process that
  never exits or exits after more than 30 seconds gives a failed result with the timeout
  message of the front end.  \<open>run_subprocess\<close> of educational_hello.py and \<open>run_command\<close>
  of multi_lang_hello.py pass no timeout: they wait for the process however long it takes,
  and block exactly when it never exits.
\<close>

theorem command_stage_launch_and_timeout:
  assumes "c \<noteq> []"
  shows "snd (web_run_subprocess e c w) =
           [Launch \<lparr>args = c, cwd = w, stdout_pipe = True, stderr_pipe = True,
                    text_mode = True, check = True, timeout = Some 30\<rparr>] \<and>
         snd (anim_run_subprocess e c w) =
           [Launch \<lparr>args = c, cwd = w, stdout_pipe = True, stderr_pipe = True,
                    text_mode = True, check = True, timeout = Some 30\<rparr>] \<and>
         snd (graph_run_subprocess e c w) =
           [Launch \<lparr>args = c, cwd = w, stdout_pipe = True, stderr_pipe = True,
                    text_mode = True, check = True, timeout = Some 30\<rparr>] \<and>
         snd (edu_run_subprocess e c w) =
           [Launch \<lparr>args = c, cwd = w, stdout_pipe = True, stderr_pipe = True,
                    text_mode = True, check = True, timeout = None\<rparr>] \<and>
         snd (run_command e c w) =
           [Launch \<lparr>args = c, cwd = w, stdout_pipe = True, stderr_pipe = True,
                    text_mode = True, check = True, timeout = None\<rparr>] \<and>
         ((behaviour e c = Hangs \<or> (\<exists>d rc out err. behaviour e c = Exits d rc out err \<and> 30 < d)) \<longrightarrow>
            fst (web_run_subprocess e c w) = Returns (False, 30, [], timeout_30_msg) \<and>
            fst (anim_run_subprocess e c w) = Returns (False, 30, [], anim_timeout_msg) \<and>
            fst (graph_run_subprocess e c w) = Returns (False, 30, [], timeout_30_msg)) \<and>
         fst (web_run_subprocess e c w) \<noteq> Blocks \<and>
         fst (anim_run_subprocess e c w) \<noteq> Blocks \<and>
         fst (graph_run_subprocess e c w) \<noteq> Blocks \<and>
         (fst (edu_run_subprocess e c w) = Blocks \<longleftrightarrow> behaviour e c = Hangs) \<and>
         (fst (run_command e c w) = Blocks \<longleftrightarrow> behaviour e c = Hangs) \<and>
         (\<forall>d rc out err. behaviour e c = Exits d rc out err \<longrightarrow>
            fst (edu_run_subprocess e c w) = Returns (rc = 0, d, strip out, strip err) \<and>
            fst (run_command e c w) = Returns (rc = 0, d))"
proof -
  have web1: "snd (web_run_subprocess e c w) =
           [Launch \<lparr>args = c, cwd = w, stdout_pipe = True, stderr_pipe = True,
                    text_mode = True, check = True, timeout = Some 30\<rparr>]"
    using web_run_subprocess_effects [OF assms, of e w] by (simp add: web_run_args_def)
  have anim1: "snd (anim_run_subprocess e c w) =
           [Launch \<lparr>args = c, cwd = w, stdout_pipe = True, stderr_pipe = True,
                    text_mode = True, check = True, timeout = Some 30\<rparr>]"
    using anim_run_subprocess_effects [OF assms, of e w] by (simp add: anim_run_args_def)
  have graph1: "snd (graph_run_subprocess e c w) =
           [Launch \<lparr>args = c, cwd = w, stdout_pipe = True, stderr_pipe = True,
                    text_mode = True, check = True, timeout = Some 30\<rparr>]"
    using graph_run_subprocess_effects [OF assms, of e w] by (simp add: graph_run_args_def)
  have edu1: "snd (edu_run_subprocess e c w) =
           [Launch \<lparr>args = c, cwd = w, stdout_pipe = True, stderr_pipe = True,
                    text_mode = True, check = True, timeout = None\<rparr>]"
    using edu_run_subprocess_effects [OF assms, of e w] by (simp add: edu_run_args_def)
  have ml1: "snd (run_command e c w) =
           [Launch \<lparr>args = c, cwd = w, stdout_pipe = True, stderr_pipe = True,
                    text_mode = True, check = True, timeout = None\<rparr>]"
    using run_command_effects [OF assms, of e w] by (simp add: ml_run_args_def)
  have late: "(behaviour e c = Hangs \<or>
               (\<exists>d rc out err. behaviour e c = Exits d rc out err \<and> 30 < d)) \<longrightarrow>
            fst (web_run_subprocess e c w) = Returns (False, 30, [], timeout_30_msg) \<and>
            fst (anim_run_subprocess e c w) = Returns (False, 30, [], anim_timeout_msg) \<and>
            fst (graph_run_subprocess e c w) = Returns (False, 30, [], timeout_30_msg)"
    using assms
    by (auto simp: web_run_subprocess_def anim_run_subprocess_def graph_run_subprocess_def
        subprocess_run_def web_run_args_def anim_run_args_def graph_run_args_def)
  note nb = never_blocks_in_30 [of e c w]
  have edu2: "fst (edu_run_subprocess e c w) = Blocks \<longleftrightarrow> behaviour e c = Hangs"
    using assms by (rule edu_run_subprocess_Blocks)
  have ml2: "fst (run_command e c w) = Blocks \<longleftrightarrow> behaviour e c = Hangs"
    using assms by (rule run_command_Blocks)
  have wait: "\<forall>d rc out err. behaviour e c = Exits d rc out err \<longrightarrow>
            fst (edu_run_subprocess e c w) = Returns (rc = 0, d, strip out, strip err) \<and>
            fst (run_command e c w) = Returns (rc = 0, d)"
    using assms
    by (auto simp: edu_run_subprocess_def run_command_def subprocess_run_def edu_run_args_def
        ml_run_args_def py_or_def)
  from web1 anim1 graph1 edu1 ml1 late nb edu2 ml2 wait show ?thesis by blast
qed

theorem command_stage_launch_and_timeout_witness:
  "[ascii ''./hello_c''] \<noteq> ([] :: cmd) \<and>
   behaviour world_slow [ascii ''./hello_c''] = Exits 31 0 hello_out [] \<and>
   fst (web_run_subprocess world_slow [ascii ''./hello_c''] (ascii ''/tmp/ws'')) =
     Returns (False, 30, [], timeout_30_msg) \<and>
   fst (anim_run_subprocess world_slow [ascii ''./hello_c''] (ascii ''/tmp/ws'')) =
     Returns (False, 30, [], anim_timeout_msg) \<and>
   fst (graph_run_subprocess world_slow [ascii ''./hello_c''] (ascii ''/tmp/ws'')) =
     Returns (False, 30, [], timeout_30_msg) \<and>
   snd (anim_run_subprocess world_slow [ascii ''./hello_c''] (ascii ''/tmp/ws'')) =
     [Launch \<lparr>args = [ascii ''./hello_c''], cwd = ascii ''/tmp/ws'', stdout_pipe = True,
              stderr_pipe = True, text_mode = True, check = True, timeout = Some 30\<rparr>] \<and>
   fst (edu_run_subprocess world_slow [ascii ''./hello_c''] (ascii ''/tmp/ws'')) =
     Returns (True, 31, ascii ''Hello World'', []) \<and>
   fst (run_command world_slow [ascii ''./hello_c''] (ascii ''/tmp/ws'')) = Returns (True, 31)"
proof -
  have h: "[ascii ''./hello_c''] \<noteq> ([] :: cmd)" by simp
  have b: "behaviour world_slow [ascii ''./hello_c''] = Exits 31 0 hello_out []"
    by (simp add: world_slow_def with_behaviour_def)
  from command_stage_launch_and_timeout [OF h, of world_slow "ascii ''/tmp/ws''"] b h
  show ?thesis by (simp add: strip_hello strip_Nil)
qed

text \<open>
  C3 as stated fails: a program that runs for 31 seconds is waited for by
  \<open>run_subprocess\<close> of educational_hello.py and reported as a success, and for a program
  that never exits neither that executor nor \<open>run_command\<close> of multi_lang_hello.py returns.
\<close>

theorem no_timeout_in_educational_and_console:
  "fst (edu_run_subprocess world_slow [ascii ''./hello_c''] (ascii ''/tmp/ws'')) =
     Returns (True, 31, ascii ''Hello World'', []) \<and>
   fst (edu_run_subprocess world_hangs [ascii ''./hello_c''] (ascii ''/tmp/ws'')) = Blocks \<and>
   fst (run_command world_hangs [ascii ''./hello_c''] (ascii ''/tmp/ws'')) = Blocks"
  by (simp add: edu_run_subprocess_def run_command_def subprocess_run_def edu_run_args_def
      ml_run_args_def world_slow_def world_hangs_def with_behaviour_def world_ok_def
      strip_hello strip_Nil)


section \<open>web_hello.py: progress and the failed flag of \<open>execute_language\<close>\<close>



lemma web_compile_loop_returns:
  "\<forall>c\<in>set cs. \<not> cannot_run e c \<Longrightarrow> \<exists>x. fst (web_compile_loop e r t cs) = Returns x"
proof (induction cs arbitrary: t)
  case Nil
  then show ?case by simp
next
  case (Cons c cs)
  then have nc: "\<not> cannot_run e c" and rest: "\<forall>c\<in>set cs. \<not> cannot_run e c" by auto
  from three_ways [of e c] nc have "succeeds_in_30 e c \<or> fails_in_30 e c" by blast
  then show ?case
  proof
    assume s: "succeeds_in_30 e c"
    from web_succeeds [OF s, of "WORKSPACE e"] obtain el out err where
      run: "web_run_subprocess e c (WORKSPACE e) =
              (Returns (True, el, out, err), [Launch (web_run_args c (WORKSPACE e))])"
      by blast
    from Cons.IH [OF rest, of "t + el"] run show ?thesis by simp
  next
    assume f: "fails_in_30 e c"
    from web_fails [OF f, of "WORKSPACE e"] obtain el out err where
      run: "web_run_subprocess e c (WORKSPACE e) =
              (Returns (False, el, out, err), [Launch (web_run_args c (WORKSPACE e))])"
      by blast
    then show ?thesis by simp
  qed
qed



lemma web_run_stage_returns:
  assumes "\<not> cannot_run e (run_cmd spec)"
  shows "\<exists>r'. fst (web_run_stage e spec r) = Returns r'"
proof -
  from three_ways [of e "run_cmd spec"] assms
  have "succeeds_in_30 e (run_cmd spec) \<or> fails_in_30 e (run_cmd spec)" by blast
  then show ?thesis
  proof
    assume s: "succeeds_in_30 e (run_cmd spec)"
    from web_succeeds [OF s, of "WORKSPACE e"] show ?thesis
      by (auto simp: web_run_stage_def Let_def)
  next
    assume f: "fails_in_30 e (run_cmd spec)"
    from web_fails [OF f, of "WORKSPACE e"] show ?thesis
      by (auto simp: web_run_stage_def Let_def)
  qed
qed




lemma execute_language_returns:
  assumes "workspace_ready e" and "\<not> cannot_run e (run_cmd spec)"
    and "\<forall>c\<in>set (compile_cmds spec). \<not> cannot_run e c"
  shows "\<exists>r. fst (execute_language e spec) = Returns r"
proof -
  have prep: "\<exists>u. fst (if \<not> path_exists e (WORKSPACE e) then mkdir_workspace e else emit []) =
                Returns u"
    using assms(1) by (auto simp: workspace_ready_def mkdir_workspace_def emit_def)
  obtain elapsed w where wt: "write_text e (filename spec) = (elapsed, w)"
    by (cases "write_text e (filename spec)")
  let ?r = "web_initial\<lparr>web_write_time := elapsed, web_progress := 25\<rparr>"
  show ?thesis
  proof (cases w)
    case (Some msg)
    with wt prep show ?thesis
      by (auto simp: execute_language_def fst_then_do_Returns)
  next
    case None
    show ?thesis
    proof (cases "compile_cmds spec = []")
      case True
      from web_run_stage_returns [OF assms(2), of ?r] True wt None prep show ?thesis
        by (auto simp: execute_language_def fst_then_do_Returns Let_def)
    next
      case False
      from web_compile_loop_returns [OF assms(3), of "?r\<lparr>web_status := WebCompiling\<rparr>" 0]
      obtain x where
        loop: "fst (web_compile_loop e (?r\<lparr>web_status := WebCompiling\<rparr>) 0 (compile_cmds spec)) =
                 Returns x" by blast
      have "\<exists>r'. fst (case x of
                 Inl failed_result \<Rightarrow> (Returns failed_result, [])
               | Inr compile_total \<Rightarrow>
                   web_run_stage e spec
                     (web_initial\<lparr>web_write_time := elapsed, web_status := WebCompiling,
                        web_compile_time := compile_total, web_progress := 70\<rparr>)) = Returns r'"
        using web_run_stage_returns [OF assms(2)] by (cases x) auto
      with loop False wt None prep show ?thesis
        by (auto simp: execute_language_def fst_then_do_Returns Let_def)
    qed
  qed
qed









section \<open>A language without compile steps\<close>

lemma edu_returns:
  assumes "c \<noteq> []" and "behaviour e c \<noteq> Hangs" and "\<not> cannot_run e c"
  shows "\<exists>ok el out err. edu_run_subprocess e c w =
           (Returns (ok, el, out, err), [Launch (edu_run_args c w)])"
  using assms
  by (cases "behaviour e c")
     (auto simp: edu_run_subprocess_def subprocess_run_def edu_run_args_def cannot_run_def)

lemma run_command_returns:
  assumes "c \<noteq> []" and "behaviour e c \<noteq> Hangs" and "\<not> cannot_run e c"
  shows "\<exists>ok el. run_command e c w = (Returns (ok, el), [Launch (ml_run_args c w)])"
  using assms
  by (cases "behaviour e c")
     (auto simp: run_command_def subprocess_run_def ml_run_args_def cannot_run_def)

text \<open>
  C6.  For a language whose list of compile commands is empty and whose source write
  succeeds, the pipeline goes from the write straight to the run command: no compile command
  is launched, and the compile timing recorded is exactly 0 (web_hello.py,
  educational_hello.py; multi_lang_hello.py records no timings).  The run stage returns
  when the run command can be run and, in educational_hello.py and multi_lang_hello.py,
  which have no timeout, the program exits.
\<close>

theorem empty_compile_list_skips_compiling:
  assumes "compile_cmds spec = []" and "\<not> write_failed e spec" and "run_cmd spec \<noteq> []"
  shows "(workspace_ready e \<longrightarrow>
            snd (execute_language e spec) =
              (if path_exists e (WORKSPACE e) then [] else [Mkdir]) @
              [WriteFile (filename spec), Launch (web_run_args (run_cmd spec) (WORKSPACE e))]) \<and>
         (\<forall>r. fst (execute_language e spec) = Returns r \<longrightarrow>
            web_compile_time r = 0 \<and>
            (web_status r = WebRunDone \<or> web_status r = WebRunFailed)) \<and>
         (workspace_ready e \<and> \<not> cannot_run e (run_cmd spec) \<longrightarrow>
            (\<exists>r. fst (execute_language e spec) = Returns r)) \<and>
         (\<exists>st. edu_compile_phase e spec edu_initial =
                  (Returns st, [WriteFile (filename spec), Advance, UpdateCompleted 1]) \<and>
               edu_timings st TCompile = Some 0 \<and> edu_status st = EduReadyToInterpret \<and>
               \<not> edu_failed st \<and>
               snd (edu_run_phase e spec st) =
                 [Launch (edu_run_args (run_cmd spec) (WORKSPACE e))] \<and>
               (\<forall>st'. fst (edu_run_phase e spec st) = Returns st' \<longrightarrow>
                  edu_timings st' TCompile = Some 0) \<and>
               (behaviour e (run_cmd spec) \<noteq> Hangs \<and> \<not> cannot_run e (run_cmd spec) \<longrightarrow>
                  (\<exists>st'. fst (edu_run_phase e spec st) = Returns st'))) \<and>
         snd (process_language e spec) =
           [WriteFile (filename spec), Launch (ml_run_args (run_cmd spec) (WORKSPACE e))] \<and>
         (behaviour e (run_cmd spec) \<noteq> Hangs \<and> \<not> cannot_run e (run_cmd spec) \<longrightarrow>
            fst (process_language e spec) = Returns ())"
proof -
  obtain elapsed where w: "write_text e (filename spec) = (elapsed, None)"
    using assms(2) by (cases "write_text e (filename spec)") (auto simp: write_failed_def)
  let ?r = "web_initial\<lparr>web_write_time := elapsed, web_progress := 25\<rparr>"
  have stage_fx: "snd (web_run_stage e spec ?r) =
                    [Launch (web_run_args (run_cmd spec) (WORKSPACE e))]"
  proof -
    obtain res fx0 where run: "web_run_subprocess e (run_cmd spec) (WORKSPACE e) = (res, fx0)"
      by (cases "web_run_subprocess e (run_cmd spec) (WORKSPACE e)")
    with web_run_subprocess_effects [OF assms(3), of e "WORKSPACE e"]
    have fx0: "fx0 = [Launch (web_run_args (run_cmd spec) (WORKSPACE e))]" by simp
    show ?thesis
    proof (cases res)
      case (Returns x)
      obtain ok el out err where x: "x = (ok, el, out, err)" by (cases x)
      from run Returns x fx0 show ?thesis
        by (cases ok) (simp_all add: web_run_stage_def Let_def)
    qed (use run fx0 in \<open>simp_all add: web_run_stage_def\<close>)
  qed
  have web1: "workspace_ready e \<longrightarrow>
            snd (execute_language e spec) =
              (if path_exists e (WORKSPACE e) then [] else [Mkdir]) @
              [WriteFile (filename spec), Launch (web_run_args (run_cmd spec) (WORKSPACE e))]"
    using w assms(1) stage_fx
    by (auto simp: execute_language_def workspace_ready_def mkdir_workspace_def Let_def)
  have web2: "\<forall>r. fst (execute_language e spec) = Returns r \<longrightarrow>
            web_compile_time r = 0 \<and>
            (web_status r = WebRunDone \<or> web_status r = WebRunFailed)"
  proof (intro allI impI)
    fix r
    assume "fst (execute_language e spec) = Returns r"
    with w assms(1) have "fst (web_run_stage e spec ?r) = Returns r"
      by (auto simp: execute_language_def fst_then_do_Returns Let_def)
    obtain res fx0 where run: "web_run_subprocess e (run_cmd spec) (WORKSPACE e) = (res, fx0)"
      by (cases "web_run_subprocess e (run_cmd spec) (WORKSPACE e)")
    show "web_compile_time r = 0 \<and> (web_status r = WebRunDone \<or> web_status r = WebRunFailed)"
    proof (cases res)
      case (Returns x)
      obtain ok el out err where x: "x = (ok, el, out, err)" by (cases x)
      from \<open>fst (web_run_stage e spec ?r) = Returns r\<close> run Returns x show ?thesis
        by (cases ok) (auto simp: web_run_stage_def web_initial_def Let_def)
    qed (use \<open>fst (web_run_stage e spec ?r) = Returns r\<close> run in
          \<open>simp_all add: web_run_stage_def\<close>)
  qed
  have web3: "workspace_ready e \<and> \<not> cannot_run e (run_cmd spec) \<longrightarrow>
            (\<exists>r. fst (execute_language e spec) = Returns r)"
    using execute_language_returns [of e spec] assms(1) by simp
  let ?st = "edu_initial\<lparr>edu_status := EduWriting,
                          edu_timings := (edu_timings edu_initial)(TWrite \<mapsto> elapsed),
                          edu_timings := ((edu_timings edu_initial)(TWrite \<mapsto> elapsed))(TCompile \<mapsto> 0),
                          edu_status := EduReadyToInterpret\<rparr>"
  have phase: "edu_compile_phase e spec edu_initial =
                 (Returns ?st, [WriteFile (filename spec), Advance, UpdateCompleted 1])"
    using w assms(1)
    by (simp add: edu_compile_phase_def edu_write_source_file_def Let_def)
  have st: "edu_timings ?st TCompile = Some 0" "edu_status ?st = EduReadyToInterpret"
    "\<not> edu_failed ?st"
    by (simp_all add: edu_initial_def)
  obtain res fx0 where erun: "edu_run_subprocess e (run_cmd spec) (WORKSPACE e) = (res, fx0)"
    by (cases "edu_run_subprocess e (run_cmd spec) (WORKSPACE e)")
  with edu_run_subprocess_effects [OF assms(3), of e "WORKSPACE e"]
  have efx: "fx0 = [Launch (edu_run_args (run_cmd spec) (WORKSPACE e))]" by simp
  have run_fx: "snd (edu_run_phase e spec ?st) =
                  [Launch (edu_run_args (run_cmd spec) (WORKSPACE e))]"
  proof (cases res)
    case (Returns x)
    obtain ok el out err where x: "x = (ok, el, out, err)" by (cases x)
    from erun Returns x efx show ?thesis
      by (cases ok) (simp_all add: edu_run_phase_def edu_initial_def Let_def)
  qed (use erun efx in \<open>simp_all add: edu_run_phase_def edu_initial_def\<close>)
  have run_edu: "\<forall>st'. fst (edu_run_phase e spec ?st) = Returns st' \<longrightarrow>
                  edu_timings st' TCompile = Some 0"
  proof (intro allI impI)
    fix st'
    assume a: "fst (edu_run_phase e spec ?st) = Returns st'"
    show "edu_timings st' TCompile = Some 0"
    proof (cases res)
      case (Returns x)
      obtain ok el out err where x: "x = (ok, el, out, err)" by (cases x)
      from a erun Returns x show ?thesis
        by (cases ok) (auto simp: edu_run_phase_def edu_initial_def Let_def)
    qed (use a erun in \<open>simp_all add: edu_run_phase_def edu_initial_def\<close>)
  qed
  have term_edu: "behaviour e (run_cmd spec) \<noteq> Hangs \<and> \<not> cannot_run e (run_cmd spec) \<longrightarrow>
                    (\<exists>st'. fst (edu_run_phase e spec ?st) = Returns st')"
  proof
    assume "behaviour e (run_cmd spec) \<noteq> Hangs \<and> \<not> cannot_run e (run_cmd spec)"
    with edu_returns [OF assms(3), of e "WORKSPACE e"]
    obtain ok el out err where
      "edu_run_subprocess e (run_cmd spec) (WORKSPACE e) =
         (Returns (ok, el, out, err), [Launch (edu_run_args (run_cmd spec) (WORKSPACE e))])"
      by blast
    then show "\<exists>st'. fst (edu_run_phase e spec ?st) = Returns st'"
      by (cases ok) (simp_all add: edu_run_phase_def edu_initial_def Let_def)
  qed
  obtain mres mfx where mrun: "run_command e (run_cmd spec) (WORKSPACE e) = (mres, mfx)"
    by (cases "run_command e (run_cmd spec) (WORKSPACE e)")
  with run_command_effects [OF assms(3), of e "WORKSPACE e"]
  have mfx: "mfx = [Launch (ml_run_args (run_cmd spec) (WORKSPACE e))]" by simp
  have ml: "snd (process_language e spec) =
              [WriteFile (filename spec), Launch (ml_run_args (run_cmd spec) (WORKSPACE e))]"
    using w assms(1) mrun mfx
    by (cases mres)
       (simp_all add: process_language_def write_source_file_def run_execution_def)
  have term_ml: "behaviour e (run_cmd spec) \<noteq> Hangs \<and> \<not> cannot_run e (run_cmd spec) \<longrightarrow>
                   fst (process_language e spec) = Returns ()"
  proof
    assume "behaviour e (run_cmd spec) \<noteq> Hangs \<and> \<not> cannot_run e (run_cmd spec)"
    with run_command_returns [OF assms(3), of e "WORKSPACE e"]
    obtain ok el where
      "run_command e (run_cmd spec) (WORKSPACE e) =
         (Returns (ok, el), [Launch (ml_run_args (run_cmd spec) (WORKSPACE e))])" by blast
    with w assms(1) show "fst (process_language e spec) = Returns ()"
      by (simp add: process_language_def write_source_file_def run_execution_def)
  qed
  from web1 web2 web3 phase st run_fx run_edu term_edu ml term_ml show ?thesis by blast
qed

theorem empty_compile_list_skips_compiling_witness:
  "compile_cmds Python_spec = [] \<and> \<not> write_failed world_ok Python_spec \<and>
   run_cmd Python_spec \<noteq> [] \<and> workspace_ready world_ok \<and>
   behaviour world_ok (run_cmd Python_spec) \<noteq> Hangs \<and>
   \<not> cannot_run world_ok (run_cmd Python_spec) \<and>
   process_language world_ok Python_spec =
     (Returns (),
      [WriteFile (ascii ''hello.py''),
       Launch (ml_run_args [ascii ''python3'', ascii ''hello.py''] (ascii ''/tmp/ws''))]) \<and>
   snd (execute_language world_ok Python_spec) =
     [Mkdir, WriteFile (ascii ''hello.py''),
      Launch (web_run_args [ascii ''python3'', ascii ''hello.py''] (ascii ''/tmp/ws''))] \<and>
   (\<exists>r. fst (execute_language world_ok Python_spec) = Returns r \<and> web_compile_time r = 0)"
proof -
  have h1: "compile_cmds Python_spec = []" by (simp add: Python_spec_def)
  have h2: "\<not> write_failed world_ok Python_spec" by (simp add: write_failed_def world_ok_def)
  have h3: "run_cmd Python_spec \<noteq> []" by (simp add: Python_spec_def)
  have h4: "workspace_ready world_ok" by (simp add: workspace_ready_def world_ok_def)
  have b: "behaviour world_ok (run_cmd Python_spec) \<noteq> Hangs" by (simp add: world_ok_def)
  have n: "\<not> cannot_run world_ok (run_cmd Python_spec)"
    by (simp add: cannot_run_def world_ok_def Python_spec_def)
  have p: "\<not> path_exists world_ok (WORKSPACE world_ok)" by (simp add: world_ok_def)
  have f: "filename Python_spec = ascii ''hello.py''"
    "run_cmd Python_spec = [ascii ''python3'', ascii ''hello.py'']"
    "WORKSPACE world_ok = ascii ''/tmp/ws''"
    by (simp_all add: Python_spec_def world_ok_def)
  have pl: "process_language world_ok Python_spec =
              (fst (process_language world_ok Python_spec),
               snd (process_language world_ok Python_spec))" by simp
  from empty_compile_list_skips_compiling [OF h1 h2 h3] b n h4 p
  have "fst (process_language world_ok Python_spec) = Returns ()"
    and "snd (process_language world_ok Python_spec) =
           [WriteFile (filename Python_spec),
            Launch (ml_run_args (run_cmd Python_spec) (WORKSPACE world_ok))]"
    and "snd (execute_language world_ok Python_spec) =
           [Mkdir, WriteFile (filename Python_spec),
            Launch (web_run_args (run_cmd Python_spec) (WORKSPACE world_ok))]"
    and "\<exists>r. fst (execute_language world_ok Python_spec) = Returns r \<and> web_compile_time r = 0"
    by (simp, simp, simp, blast)
  with pl h1 h2 h3 h4 b n show ?thesis unfolding f by (simp add: prod_eq_iff)
qed


section \<open>The error text of a command that exits with a non-zero status\<close>

lemma str_CalledProcessError_not_empty: "str_CalledProcessError e c rc \<noteq> []"
  by (simp add: str_CalledProcessError_def ascii_def)

text \<open>
  C8 (as amended).  When a command exits with a non-zero status, the error text stored for
  the pipeline is the captured stderr if that is not empty (stripped in
  educational_hello.py, unchanged in web_hello.py, its first 100 characters in the event of
  animated_hello.py).  When the captured stderr is empty, educational_hello.py falls back
  to the stripped stdout (and in its run stage to a fixed text when that is empty too),
  while animated_hello.py has no fallback to stdout: its event carries the first 100
  characters of the text of the exception, which is never empty.
\<close>

theorem error_text_of_nonzero_exit:
  assumes "behaviour e c = Exits d rc out err" and "rc \<noteq> 0" and "c \<noteq> []" and "d \<le> 30"
  shows "(\<exists>st' t' fx. edu_compile_loop e n st t i (c # cs) = (Returns (st', t'), fx) \<and>
            edu_failed st' \<and>
            edu_stderr st' = (if strip err \<noteq> [] then strip err else strip out)) \<and>
         (run_cmd spec = c \<and> \<not> edu_failed st \<longrightarrow>
            (\<exists>st' fx. edu_run_phase e spec st = (Returns st', fx) \<and> edu_failed st' \<and>
               edu_stderr st' =
                 (if strip err \<noteq> [] then strip err
                  else if strip out \<noteq> [] then strip out else edu_execution_failed))) \<and>
         (err \<noteq> [] \<longrightarrow>
            (\<exists>r' fx. web_compile_loop e r t (c # cs) = (Returns (Inl r'), fx) \<and> web_failed r' \<and>
               web_error r' = err)) \<and>
         (err \<noteq> [] \<and> run_cmd spec = c \<longrightarrow>
            (\<exists>r' fx. web_run_stage e spec r = (Returns r', fx) \<and> web_failed r' \<and>
               web_error r' = err)) \<and>
         (\<exists>res fx. anim_compile_loop e idx t l (c # cs) = (Returns res, fx) \<and>
            compile_errors fx =
              [EvCompileError idx (join_space c)
                 (take 100 (if err \<noteq> [] then err else str_CalledProcessError e c rc))]) \<and>
         (run_cmd spec = c \<longrightarrow>
            (\<exists>ts' fx. anim_run_stage e idx spec ts = (Returns ts', fx) \<and>
               run_errors fx =
                 [EvRunError idx (join_space c)
                    (take 100 (if err \<noteq> [] then err else str_CalledProcessError e c rc))])) \<and>
         str_CalledProcessError e c rc \<noteq> []"
proof -
  have edu: "edu_run_subprocess e c (WORKSPACE e) =
               (Returns (False, d, strip out, strip err), [Launch (edu_run_args c (WORKSPACE e))])"
    using assms
    by (simp add: edu_run_subprocess_def subprocess_run_def edu_run_args_def py_or_def)
  have web: "web_run_subprocess e c (WORKSPACE e) =
               (Returns (False, d, out, py_or err (str_CalledProcessError e c rc)),
                [Launch (web_run_args c (WORKSPACE e))])"
    using assms
    by (simp add: web_run_subprocess_def subprocess_run_def web_run_args_def py_or_def)
  have anim: "anim_run_subprocess e c (WORKSPACE e) =
               (Returns (False, d, out, py_or err (str_CalledProcessError e c rc)),
                [Launch (anim_run_args c (WORKSPACE e))])"
    using assms
    by (simp add: anim_run_subprocess_def subprocess_run_def anim_run_args_def py_or_def)
  note ne = str_CalledProcessError_not_empty [of e c rc]
  have c1: "\<exists>st' t' fx. edu_compile_loop e n st t i (c # cs) = (Returns (st', t'), fx) \<and>
            edu_failed st' \<and>
            edu_stderr st' = (if strip err \<noteq> [] then strip err else strip out)"
    using edu by (simp add: py_or_def)
  have c2: "run_cmd spec = c \<and> \<not> edu_failed st \<longrightarrow>
            (\<exists>st' fx. edu_run_phase e spec st = (Returns st', fx) \<and> edu_failed st' \<and>
               edu_stderr st' =
                 (if strip err \<noteq> [] then strip err
                  else if strip out \<noteq> [] then strip out else edu_execution_failed))"
    using edu by (auto simp: edu_run_phase_def py_or_def Let_def)
  have c3: "err \<noteq> [] \<longrightarrow>
            (\<exists>r' fx. web_compile_loop e r t (c # cs) = (Returns (Inl r'), fx) \<and> web_failed r' \<and>
               web_error r' = err)"
    using web by (simp add: py_or_def)
  have c4: "err \<noteq> [] \<and> run_cmd spec = c \<longrightarrow>
            (\<exists>r' fx. web_run_stage e spec r = (Returns r', fx) \<and> web_failed r' \<and>
               web_error r' = err)"
    using web by (auto simp: web_run_stage_def py_or_def Let_def)
  have c5: "\<exists>res fx. anim_compile_loop e idx t l (c # cs) = (Returns res, fx) \<and>
            compile_errors fx =
              [EvCompileError idx (join_space c)
                 (take 100 (if err \<noteq> [] then err else str_CalledProcessError e c rc))]"
    using anim by (auto simp: py_or_def Let_def)
  have c6: "run_cmd spec = c \<longrightarrow>
            (\<exists>ts' fx. anim_run_stage e idx spec ts = (Returns ts', fx) \<and>
               run_errors fx =
                 [EvRunError idx (join_space c)
                    (take 100 (if err \<noteq> [] then err else str_CalledProcessError e c rc))])"
    using anim by (auto simp: anim_run_stage_def py_or_def Let_def)
  from c1 c2 c3 c4 c5 c6 ne show ?thesis by blast
qed

theorem error_text_of_nonzero_exit_witness:
  "behaviour world_gcc_fails gcc_cmd = Exits (1/5) 1 [] (ascii ''syntax error'') \<and>
   (1::int) \<noteq> 0 \<and> gcc_cmd \<noteq> [] \<and> (1/5 :: rat) \<le> 30 \<and> ascii ''syntax error'' \<noteq> [] \<and>
   (\<exists>st' t' fx. edu_compile_loop world_gcc_fails 1 edu_initial 0 1 [gcc_cmd] =
                   (Returns (st', t'), fx) \<and>
      edu_stderr st' = ascii ''syntax error'') \<and>
   (\<exists>r' fx. web_compile_loop world_gcc_fails web_initial 0 [gcc_cmd] = (Returns (Inl r'), fx) \<and>
      web_error r' = ascii ''syntax error'') \<and>
   (\<exists>res fx. anim_compile_loop world_gcc_fails 0 0 [] [gcc_cmd] = (Returns res, fx) \<and>
      compile_errors fx =
        [EvCompileError 0 (join_space gcc_cmd) (ascii ''syntax error'')])"
proof -
  have h1: "behaviour world_gcc_fails gcc_cmd = Exits (1/5) 1 [] (ascii ''syntax error'')"
    by (simp add: world_gcc_fails_def with_behaviour_def gcc_cmd_def ascii_def)
  have h2: "(1::int) \<noteq> 0" by simp
  have h3: "gcc_cmd \<noteq> []" by (simp add: gcc_cmd_def)
  have h4: "(1/5 :: rat) \<le> 30" by simp
  have h5: "ascii ''syntax error'' \<noteq> []" by (simp add: ascii_def)
  have s: "strip (ascii ''syntax error'') = ascii ''syntax error''"
    by (simp add: strip_def ascii_def py_isspace_def)
  have tk: "take 100 (ascii ''syntax error'') = ascii ''syntax error''"
    by (simp add: ascii_def)
  note T = error_text_of_nonzero_exit
         [OF h1 h2 h3 h4, where n = 1 and st = edu_initial and t = 0 and i = 1 and cs = "[]"
            and r = web_initial and spec = C_spec and idx = 0 and l = "[]"]
  from T have A: "\<exists>st' t' fx.
      edu_compile_loop world_gcc_fails 1 edu_initial 0 1 [gcc_cmd] = (Returns (st', t'), fx) \<and>
      edu_stderr st' =
        (if strip (ascii ''syntax error'') \<noteq> [] then strip (ascii ''syntax error'')
         else strip [])"
    by blast
  from T h5 have B: "\<exists>r' fx.
      web_compile_loop world_gcc_fails web_initial 0 [gcc_cmd] = (Returns (Inl r'), fx) \<and>
      web_error r' = ascii ''syntax error''"
    by blast
  from T have C: "\<exists>res fx.
      anim_compile_loop world_gcc_fails 0 0 [] [gcc_cmd] = (Returns res, fx) \<and>
      compile_errors fx =
        [EvCompileError 0 (join_space gcc_cmd)
           (take 100 (if ascii ''syntax error'' \<noteq> [] then ascii ''syntax error''
                      else str_CalledProcessError world_gcc_fails gcc_cmd 1))]"
    by blast
  from A h5 have A': "\<exists>st' t' fx.
      edu_compile_loop world_gcc_fails 1 edu_initial 0 1 [gcc_cmd] = (Returns (st', t'), fx) \<and>
      edu_stderr st' = ascii ''syntax error''"
    by (simp only: s simp_thms if_True)
  from C h5 have C': "\<exists>res fx.
      anim_compile_loop world_gcc_fails 0 0 [] [gcc_cmd] = (Returns res, fx) \<and>
      compile_errors fx = [EvCompileError 0 (join_space gcc_cmd) (ascii ''syntax error'')]"
    by (simp only: tk simp_thms if_True)
  from h1 h2 h3 h4 h5 A' B C' show ?thesis by blast
qed

text \<open>
  C8 as stated fails: the C compiler exits with status 1 having written \<open>boom\<close> to stdout
  and nothing to stderr, and the \<open>compile_error\<close> event of animated_hello.py carries the
  text of the exception, not the captured stdout; educational_hello.py stores \<open>boom\<close>.
\<close>

theorem animated_error_is_not_stdout:
  "behaviour world_gcc_stdout gcc_cmd = Exits (1/5) 1 (ascii ''boom'') [] \<and>
   compile_errors (snd (anim_compile_lang world_gcc_stdout 0 C_spec)) =
     [EvCompileError 0 (ascii ''gcc hello.c -o hello_c'')
        (ascii ''Command returned non-zero exit status'')] \<and>
   map_outcome (edu_stderr \<circ> fst)
     (fst (edu_compile_loop world_gcc_stdout 1 edu_initial 0 1 (compile_cmds C_spec))) =
     Returns (ascii ''boom'')"
  by (simp add: anim_compile_lang_def anim_run_subprocess_def edu_run_subprocess_def
      subprocess_run_def anim_run_args_def edu_run_args_def
      world_gcc_stdout_def with_behaviour_def world_ok_def C_spec_def gcc_cmd_def py_or_def
      str_CalledProcessError_def edu_initial_def strip_def py_isspace_def ascii_def Let_def)


section \<open>The first failing compile step\<close>

lemma edu_stage_okD:
  assumes "edu_stage_ok e c"
  shows "\<exists>el out err. edu_run_subprocess e c (WORKSPACE e) =
           (Returns (True, el, out, err), [Launch (edu_run_args c (WORKSPACE e))])"
proof -
  have c: "c \<noteq> []" using assms empty_command_raises(4) [of e "WORKSPACE e"]
    by (auto simp: edu_stage_ok_def)
  obtain res fx where r: "edu_run_subprocess e c (WORKSPACE e) = (res, fx)"
    by (cases "edu_run_subprocess e c (WORKSPACE e)")
  from edu_run_subprocess_effects [OF c, of e "WORKSPACE e"] r assms show ?thesis
    by (cases res) (auto simp: edu_stage_ok_def)
qed

lemma edu_stage_failedD:
  assumes "edu_stage_failed e c"
  shows "\<exists>el. edu_run_subprocess e c (WORKSPACE e) =
           (Returns (False, el, edu_stage_stdout e c, edu_stage_stderr e c),
            [Launch (edu_run_args c (WORKSPACE e))])"
proof -
  have c: "c \<noteq> []" using assms empty_command_raises(4) [of e "WORKSPACE e"]
    by (auto simp: edu_stage_failed_def)
  obtain res fx where r: "edu_run_subprocess e c (WORKSPACE e) = (res, fx)"
    by (cases "edu_run_subprocess e c (WORKSPACE e)")
  from edu_run_subprocess_effects [OF c, of e "WORKSPACE e"] r assms show ?thesis
    by (cases res) (auto simp: edu_stage_failed_def edu_stage_stdout_def edu_stage_stderr_def)
qed

lemma edu_compile_loop_first_failure:
  assumes "\<forall>p\<in>set pre. edu_stage_ok e p" and "edu_stage_failed e c"
  shows "\<exists>st' t' fx. edu_compile_loop e n st t i (pre @ c # post) = (Returns (st', t'), fx) \<and>
           launches fx = pre @ [c] \<and> advances fx = length pre \<and> edu_failed st' \<and>
           edu_status st' = EduCompilationError \<and>
           edu_stderr st' = py_or (edu_stage_stderr e c) (edu_stage_stdout e c)"
  using assms(1)
proof (induction pre arbitrary: st t i)
  case Nil
  from edu_stage_failedD [OF assms(2)] show ?case
    by (auto simp: edu_run_args_def)
next
  case (Cons p pre)
  then have p: "edu_stage_ok e p" and rest: "\<forall>q\<in>set pre. edu_stage_ok e q" by auto
  from edu_stage_okD [OF p] obtain el out err where
    run: "edu_run_subprocess e p (WORKSPACE e) =
            (Returns (True, el, out, err), [Launch (edu_run_args p (WORKSPACE e))])"
    by blast
  let ?st1 = "st\<lparr>edu_status := EduCompiling i n\<rparr>"
  let ?st2 = "if out \<noteq> [] then ?st1\<lparr>edu_stdout := out\<rparr> else ?st1"
  let ?st3 = "if err \<noteq> [] then ?st2\<lparr>edu_stderr := err\<rparr> else ?st2"
  from Cons.IH [OF rest, of ?st3 "t + el" "i + 1"]
  obtain st' t' fx where
    ih: "edu_compile_loop e n ?st3 (t + el) (i + 1) (pre @ c # post) = (Returns (st', t'), fx)" and
    props: "launches fx = pre @ [c]" "advances fx = length pre" "edu_failed st'"
      "edu_status st' = EduCompilationError"
      "edu_stderr st' = py_or (edu_stage_stderr e c) (edu_stage_stdout e c)"
    by blast
  have "edu_compile_loop e n st t i ((p # pre) @ c # post) =
          (Returns (st', t'), [Launch (edu_run_args p (WORKSPACE e))] @ [Advance] @ fx)"
    using run ih by (simp add: Let_def)
  with props show ?case by (simp add: edu_run_args_def)
qed

lemma anim_stage_okD:
  assumes "anim_stage_ok e c"
  shows "\<exists>el out err. anim_run_subprocess e c (WORKSPACE e) =
           (Returns (True, el, out, err), [Launch (anim_run_args c (WORKSPACE e))])"
proof -
  have c: "c \<noteq> []" using assms empty_command_raises(2) [of e "WORKSPACE e"]
    by (auto simp: anim_stage_ok_def)
  obtain res fx where r: "anim_run_subprocess e c (WORKSPACE e) = (res, fx)"
    by (cases "anim_run_subprocess e c (WORKSPACE e)")
  from anim_run_subprocess_effects [OF c, of e "WORKSPACE e"] r assms show ?thesis
    by (cases res) (auto simp: anim_stage_ok_def)
qed

lemma anim_stage_failedD:
  assumes "anim_stage_failed e c"
  shows "\<exists>el out. anim_run_subprocess e c (WORKSPACE e) =
           (Returns (False, el, out, anim_stage_stderr e c),
            [Launch (anim_run_args c (WORKSPACE e))])"
proof -
  have c: "c \<noteq> []" using assms empty_command_raises(2) [of e "WORKSPACE e"]
    by (auto simp: anim_stage_failed_def)
  obtain res fx where r: "anim_run_subprocess e c (WORKSPACE e) = (res, fx)"
    by (cases "anim_run_subprocess e c (WORKSPACE e)")
  from anim_run_subprocess_effects [OF c, of e "WORKSPACE e"] r assms show ?thesis
    by (cases res) (auto simp: anim_stage_failed_def anim_stage_stderr_def)
qed

lemma anim_compile_loop_first_failure:
  assumes "\<forall>p\<in>set pre. anim_stage_ok e p" and "anim_stage_failed e c"
  shows "\<exists>t' fx. anim_compile_loop e idx t l (pre @ c # post) =
             (Returns (True, t', join_space c), fx) \<and>
           launches fx = pre @ [c] \<and> compile_starts fx = length pre + 1 \<and>
           compile_dones fx = 0 \<and>
           compile_errors fx =
             [EvCompileError idx (join_space c) (take 100 (anim_stage_stderr e c))] \<and>
           progress_events idx fx = []"
  using assms(1)
proof (induction pre arbitrary: t l)
  case Nil
  from anim_stage_failedD [OF assms(2)] show ?case
    by (auto simp: anim_run_args_def Let_def)
next
  case (Cons p pre)
  then have p: "anim_stage_ok e p" and rest: "\<forall>q\<in>set pre. anim_stage_ok e q" by auto
  from anim_stage_okD [OF p] obtain el out err where
    run: "anim_run_subprocess e p (WORKSPACE e) =
            (Returns (True, el, out, err), [Launch (anim_run_args p (WORKSPACE e))])"
    by blast
  from Cons.IH [OF rest, of "t + el" "join_space p"]
  obtain t' fx where
    ih: "anim_compile_loop e idx (t + el) (join_space p) (pre @ c # post) =
           (Returns (True, t', join_space c), fx)" and
    props: "launches fx = pre @ [c]" "compile_starts fx = length pre + 1" "compile_dones fx = 0"
      "compile_errors fx =
         [EvCompileError idx (join_space c) (take 100 (anim_stage_stderr e c))]"
      "progress_events idx fx = []"
    by blast
  have "anim_compile_loop e idx t l ((p # pre) @ c # post) =
          (Returns (True, t', join_space c),
                [Send (EvCompileStart idx (join_space p))] @
                [Launch (anim_run_args p (WORKSPACE e))] @ fx)"
    using run ih by (simp add: Let_def)
  with props show ?case by (simp add: anim_run_args_def)
qed

text \<open>
  C1 (as amended).  Let the compile commands of a language be \<open>pre @ c # post\<close>, let the
  source write succeed, the steps \<open>pre\<close> succeed and step \<open>c\<close> fail, so that the failing
  step is number \<open>k = length pre + 1\<close>.  Then exactly the first \<open>k\<close> compile commands are
  launched and the remaining ones never are.  In educational_hello.py the progress task is
  advanced once for the write and once for each of the \<open>k - 1\<close> steps that succeeded, the
  state ends failed with the error text of step \<open>k\<close>, and the run stage is skipped without
  launching anything.  In animated_hello.py \<open>k\<close> compile_start events and no compile_done
  event are queued, followed by one compile_error event that carries the first 100
  characters of the error text of step \<open>k\<close>, and the progress goes from 30 to 100.
\<close>

theorem first_compile_failure_stops_compiling:
  assumes "compile_cmds spec = pre @ c # post" and "\<not> write_failed e spec"
  shows "((\<forall>p\<in>set pre. edu_stage_ok e p) \<and> edu_stage_failed e c \<longrightarrow>
            (\<exists>st fx. edu_compile_phase e spec edu_initial = (Returns st, fx) \<and>
               launches fx = pre @ [c] \<and> advances fx = 1 + length pre \<and>
               edu_failed st \<and> edu_status st = EduCompilationError \<and>
               edu_stderr st = py_or (edu_stage_stderr e c) (edu_stage_stdout e c) \<and>
               edu_run_phase e spec st = (Returns (st\<lparr>edu_status := EduSkipped\<rparr>), []))) \<and>
         ((\<forall>p\<in>set pre. anim_stage_ok e p) \<and> anim_stage_failed e c \<longrightarrow>
            (\<exists>t fx. anim_compile_lang e idx spec = (Returns t, fx) \<and>
               launches fx = pre @ [c] \<and> compile_starts fx = length pre + 1 \<and>
               compile_dones fx = 0 \<and>
               compile_errors fx =
                 [EvCompileError idx (join_space c) (take 100 (anim_stage_stderr e c))] \<and>
               progress_events idx fx = [30, 100]))"
proof -
  obtain elapsed where w: "write_text e (filename spec) = (elapsed, None)"
    using assms(2) by (cases "write_text e (filename spec)") (auto simp: write_failed_def)
  have ne: "compile_cmds spec \<noteq> []" using assms(1) by simp
  have edu: "\<exists>st fx. edu_compile_phase e spec edu_initial = (Returns st, fx) \<and>
               launches fx = pre @ [c] \<and> advances fx = 1 + length pre \<and>
               edu_failed st \<and> edu_status st = EduCompilationError \<and>
               edu_stderr st = py_or (edu_stage_stderr e c) (edu_stage_stdout e c) \<and>
               edu_run_phase e spec st = (Returns (st\<lparr>edu_status := EduSkipped\<rparr>), [])"
    if ok: "\<forall>p\<in>set pre. edu_stage_ok e p" and bad: "edu_stage_failed e c"
  proof -
    let ?st1 = "edu_initial\<lparr>edu_status := EduWriting,
                             edu_timings := (edu_timings edu_initial)(TWrite \<mapsto> elapsed)\<rparr>"
    from edu_compile_loop_first_failure [OF ok bad, of "length (compile_cmds spec)" ?st1 0 1 post]
    obtain st' t' fx where
      loop: "edu_compile_loop e (length (compile_cmds spec)) ?st1 0 1 (pre @ c # post) =
               (Returns (st', t'), fx)" and
      props: "launches fx = pre @ [c]" "advances fx = length pre" "edu_failed st'"
        "edu_status st' = EduCompilationError"
        "edu_stderr st' = py_or (edu_stage_stderr e c) (edu_stage_stdout e c)"
      by blast
    let ?st = "st'\<lparr>edu_timings := (edu_timings st')(TCompile \<mapsto> t')\<rparr>"
    have phase: "edu_compile_phase e spec edu_initial =
                   (Returns ?st, [WriteFile (filename spec)] @ [Advance] @ fx)"
      using w ne loop props(3) assms(1)
      by (simp add: edu_compile_phase_def edu_write_source_file_def Let_def)
    have run: "edu_run_phase e spec ?st = (Returns (?st\<lparr>edu_status := EduSkipped\<rparr>), [])"
      using props(3) by (simp add: edu_run_phase_def)
    from phase run props show ?thesis
      by (simp add: launches_append advances_append)
  qed
  have anim: "\<exists>t fx. anim_compile_lang e idx spec = (Returns t, fx) \<and>
               launches fx = pre @ [c] \<and> compile_starts fx = length pre + 1 \<and>
               compile_dones fx = 0 \<and>
               compile_errors fx =
                 [EvCompileError idx (join_space c) (take 100 (anim_stage_stderr e c))] \<and>
               progress_events idx fx = [30, 100]"
    if ok: "\<forall>p\<in>set pre. anim_stage_ok e p" and bad: "anim_stage_failed e c"
  proof -
    from anim_compile_loop_first_failure [OF ok bad, of idx 0 "[]" post]
    obtain t' fx where
      loop: "anim_compile_loop e idx 0 [] (pre @ c # post) =
               (Returns (True, t', join_space c), fx)" and
      props: "launches fx = pre @ [c]" "compile_starts fx = length pre + 1"
        "compile_dones fx = 0"
        "compile_errors fx =
           [EvCompileError idx (join_space c) (take 100 (anim_stage_stderr e c))]"
        "progress_events idx fx = []"
      by blast
    have "anim_compile_lang e idx spec =
            (Returns ((\<lambda>k. None)(TWrite \<mapsto> elapsed, TCompile \<mapsto> t')),
                  [Send (EvStatus idx AnimCompiling), Send (EvProgress idx 30),
                   WriteFile (filename spec)] @ fx @ [Send (EvProgress idx 100)])"
      using w loop assms(1) by (simp add: anim_compile_lang_def)
    with props show ?thesis
      by (simp add: launches_append compile_starts_append compile_dones_append
          compile_errors_append progress_events_append)
  qed
  from edu anim show ?thesis by blast
qed

theorem first_compile_failure_stops_compiling_witness:
  "compile_cmds Assembly_spec = [nasm_cmd] @ ld_cmd # [] \<and>
   \<not> write_failed world_ld_fails Assembly_spec \<and>
   edu_stage_ok world_ld_fails nasm_cmd \<and> edu_stage_failed world_ld_fails ld_cmd \<and>
   anim_stage_ok world_ld_fails nasm_cmd \<and> anim_stage_failed world_ld_fails ld_cmd \<and>
   (\<exists>st fx. edu_compile_phase world_ld_fails Assembly_spec edu_initial = (Returns st, fx) \<and>
      launches fx = [nasm_cmd, ld_cmd] \<and> advances fx = 2 \<and> edu_failed st \<and>
      edu_run_phase world_ld_fails Assembly_spec st = (Returns (st\<lparr>edu_status := EduSkipped\<rparr>), [])) \<and>
   (\<exists>t fx. anim_compile_lang world_ld_fails 3 Assembly_spec = (Returns t, fx) \<and>
      launches fx = [nasm_cmd, ld_cmd] \<and> compile_starts fx = 2 \<and> compile_dones fx = 0 \<and>
      progress_events 3 fx = [30, 100])"
proof -
  have h1: "compile_cmds Assembly_spec = [nasm_cmd] @ ld_cmd # []"
    by (simp add: Assembly_spec_def)
  have h2: "\<not> write_failed world_ld_fails Assembly_spec"
    by (simp add: write_failed_def world_ld_fails_def with_behaviour_def world_ok_def)
  have b: "behaviour world_ld_fails nasm_cmd = Exits (1/10) 0 hello_out []"
    "behaviour world_ld_fails ld_cmd = Exits (1/5) 1 [] (ascii ''undefined reference'')"
    by (simp_all add: world_ld_fails_def with_behaviour_def world_ok_def nasm_cmd_def ld_cmd_def
        ascii_def)
  have ne: "nasm_cmd \<noteq> []" "ld_cmd \<noteq> []" by (simp_all add: nasm_cmd_def ld_cmd_def)
  have e1: "edu_stage_ok world_ld_fails nasm_cmd" "edu_stage_failed world_ld_fails ld_cmd"
    using b ne
    by (simp_all add: edu_stage_ok_def edu_stage_failed_def edu_run_subprocess_def
        subprocess_run_def edu_run_args_def)
  have a1: "anim_stage_ok world_ld_fails nasm_cmd" "anim_stage_failed world_ld_fails ld_cmd"
    using b ne
    by (simp_all add: anim_stage_ok_def anim_stage_failed_def anim_run_subprocess_def
        subprocess_run_def anim_run_args_def)
  from first_compile_failure_stops_compiling [OF h1 h2, of 3] e1 a1 h1 h2
  show ?thesis by fastforce
qed

text \<open>
  C1 as stated fails: in animated_hello.py, when the assembler succeeds and the linker
  fails (step 2 of 2), no compile_done event has been queued, not one.
\<close>

theorem no_compile_done_before_second_step_fails:
  "anim_stage_ok world_ld_fails nasm_cmd \<and> anim_stage_failed world_ld_fails ld_cmd \<and>
   map_outcome (\<lambda>t. ()) (fst (anim_compile_lang world_ld_fails 3 Assembly_spec)) = Returns () \<and>
   compile_dones (snd (anim_compile_lang world_ld_fails 3 Assembly_spec)) = 0 \<and>
   (0::nat) \<noteq> 2 - 1"
  by (simp add: anim_stage_ok_def anim_stage_failed_def anim_compile_lang_def
      anim_run_subprocess_def subprocess_run_def anim_run_args_def world_ld_fails_def
      with_behaviour_def world_ok_def Assembly_spec_def nasm_cmd_def ld_cmd_def py_or_def
      ascii_def Let_def)

section \<open>The workspace is removed after the last pipeline\<close>

lemma rmtrees_then_do:
  assumes "rmtrees (snd m) = 0" and "\<And>x. rmtrees (snd (k x)) = 0"
  shows "rmtrees (snd (then_do m k)) = 0"
proof (cases m)
  case (Pair r fx)
  with assms show ?thesis by (cases r) (simp_all add: rmtrees_append)
qed

lemma never_blocks_then_do:
  assumes "fst m \<noteq> Blocks" and "\<And>x. fst (k x) \<noteq> Blocks"
  shows "fst (then_do m k) \<noteq> Blocks"
  using assms by (simp add: then_do_eq_Blocks)

lemma rmtrees_0_iff: "rmtrees fx = 0 \<longleftrightarrow> Rmtree \<notin> set fx"
  by (induction fx rule: rmtrees.induct) auto

lemma run_command_no_rmtree: "rmtrees (snd (run_command e c w)) = 0"
proof (cases "c = []")
  case True
  then show ?thesis by (simp add: empty_command_raises)
next
  case False
  from run_command_effects [OF this, of e w] show ?thesis by simp
qed

lemma run_compile_steps_loop_no_rmtree: "rmtrees (snd (run_compile_steps_loop e cs)) = 0"
proof (induction cs)
  case Nil
  then show ?case by simp
next
  case (Cons c cs)
  show ?case unfolding run_compile_steps_loop.simps
    by (rule rmtrees_then_do) (auto simp: run_command_no_rmtree Cons split: prod.splits)
qed

lemma run_execution_no_rmtree: "rmtrees (snd (run_execution e lang)) = 0"
  unfolding run_execution_def
  by (rule rmtrees_then_do) (auto simp: run_command_no_rmtree)

lemma write_source_file_no_rmtree: "rmtrees (snd (write_source_file e lang)) = 0"
  by (simp add: write_source_file_def split: prod.splits option.splits)

lemma process_language_no_rmtree: "rmtrees (snd (process_language e lang)) = 0"
  unfolding process_language_def
  by (intro rmtrees_then_do write_source_file_no_rmtree)
     (auto simp: run_compile_steps_def run_compile_steps_loop_no_rmtree run_execution_no_rmtree
        intro!: rmtrees_then_do)

lemma process_all_no_rmtree: "rmtrees (snd (process_all e langs)) = 0"
proof (induction langs)
  case Nil
  then show ?case by simp
next
  case (Cons lang langs)
  show ?case unfolding process_all.simps
    by (rule rmtrees_then_do) (auto simp: process_language_no_rmtree Cons)
qed

lemma run_compile_steps_loop_returns:
  "\<forall>c\<in>set cs. behaviour e c \<noteq> Hangs \<and> \<not> cannot_run e c \<Longrightarrow>
   fst (run_compile_steps_loop e cs) = Returns True \<or>
   fst (run_compile_steps_loop e cs) = Returns False"
proof (induction cs)
  case Nil
  show ?case by simp
next
  case (Cons c cs)
  then have c: "c \<noteq> []" "behaviour e c \<noteq> Hangs" "\<not> cannot_run e c"
    by (auto simp: cannot_run_def)
  from run_command_returns [OF c, of "WORKSPACE e"] obtain b el where
    r: "run_command e c (WORKSPACE e) = (Returns (b, el), [Launch (ml_run_args c (WORKSPACE e))])"
    by blast
  from Cons have "fst (run_compile_steps_loop e cs) = Returns True \<or>
                  fst (run_compile_steps_loop e cs) = Returns False" by auto
  with r show ?case by (cases b) simp_all
qed

lemma process_language_returns:
  assumes "\<forall>c\<in>set (run_cmd lang # compile_cmds lang). behaviour e c \<noteq> Hangs \<and> \<not> cannot_run e c"
  shows "fst (process_language e lang) = Returns ()"
proof -
  from assms have c: "run_cmd lang \<noteq> []" "behaviour e (run_cmd lang) \<noteq> Hangs"
    "\<not> cannot_run e (run_cmd lang)"
    by (auto simp: cannot_run_def)
  from run_command_returns [OF c, of "WORKSPACE e"] obtain b el where
    r: "run_command e (run_cmd lang) (WORKSPACE e) =
          (Returns (b, el), [Launch (ml_run_args (run_cmd lang) (WORKSPACE e))])" by blast
  from assms have "\<forall>c\<in>set (compile_cmds lang). behaviour e c \<noteq> Hangs \<and> \<not> cannot_run e c"
    by auto
  from run_compile_steps_loop_returns [OF this] obtain ok where
    "fst (run_compile_steps_loop e (compile_cmds lang)) = Returns ok" by auto
  then obtain fx2 where
    l: "run_compile_steps_loop e (compile_cmds lang) = (Returns ok, fx2)"
    by (cases "run_compile_steps_loop e (compile_cmds lang)") auto
  have "\<exists>w fxw. write_source_file e lang = (Returns w, fxw)"
    by (simp add: write_source_file_def split: prod.splits option.splits; blast)
  then obtain w fxw where w: "write_source_file e lang = (Returns w, fxw)" by blast
  from r l w show ?thesis
    by (cases ok; cases w)
       (auto simp: process_language_def run_compile_steps_def run_execution_def)
qed

lemma process_all_returns:
  "\<forall>lang\<in>set langs. \<forall>c\<in>set (run_cmd lang # compile_cmds lang).
      behaviour e c \<noteq> Hangs \<and> \<not> cannot_run e c \<Longrightarrow>
   fst (process_all e langs) = Returns ()"
proof (induction langs)
  case Nil
  then show ?case by simp
next
  case (Cons lang langs)
  then have "\<forall>c\<in>set (run_cmd lang # compile_cmds lang).
               behaviour e c \<noteq> Hangs \<and> \<not> cannot_run e c"
    by simp
  from process_language_returns [OF this]
  have "fst (process_language e lang) = Returns ()" .
  then obtain fx1 where "process_language e lang = (Returns (), fx1)"
    by (cases "process_language e lang") auto
  moreover from Cons have "fst (process_all e langs) = Returns ()" by auto
  ultimately show ?case by simp
qed

text \<open>The threads of graphical_hello.py never block and never remove the workspace.\<close>

lemma graph_run_subprocess_no_rmtree: "rmtrees (snd (graph_run_subprocess e c w)) = 0"
proof (cases "c = []")
  case True
  then show ?thesis by (simp add: empty_command_raises)
next
  case False
  from graph_run_subprocess_effects [OF this, of e w] show ?thesis by simp
qed

lemma graph_compile_loop_no_rmtree:
  "rmtrees (snd (graph_compile_loop e n st t i cs)) = 0"
proof (induction cs arbitrary: st t i)
  case Nil
  then show ?case by simp
next
  case (Cons c cs)
  show ?case unfolding graph_compile_loop.simps
    by (rule rmtrees_then_do)
       (auto simp: graph_run_subprocess_no_rmtree Cons Let_def split: prod.splits)
qed

lemma graph_compile_loop_never_blocks:
  "fst (graph_compile_loop e n st t i cs) \<noteq> Blocks"
proof (induction cs arbitrary: st t i)
  case Nil
  then show ?case by simp
next
  case (Cons c cs)
  show ?case unfolding graph_compile_loop.simps
    by (rule never_blocks_then_do)
       (auto simp: never_blocks_in_30 Cons Let_def split: prod.splits)
qed

lemma graph_run_stage_no_rmtree: "rmtrees (snd (graph_run_stage e spec st)) = 0"
  unfolding graph_run_stage_def Let_def
  by (intro rmtrees_then_do)
     (auto simp: graph_run_subprocess_no_rmtree emit_def split: prod.splits)

lemma graph_run_stage_never_blocks: "fst (graph_run_stage e spec st) \<noteq> Blocks"
  unfolding graph_run_stage_def Let_def
  by (intro never_blocks_then_do)
     (auto simp: never_blocks_in_30 emit_def split: prod.splits)

lemma graph_execute_language_no_rmtree:
  "rmtrees (snd (graph_execute_language e spec st)) = 0"
  unfolding graph_execute_language_def Let_def
  by (intro rmtrees_then_do)
     (auto simp: graph_compile_loop_no_rmtree graph_run_stage_no_rmtree emit_def
        split: prod.splits option.splits sum.splits intro!: rmtrees_then_do)

lemma graph_execute_language_never_blocks:
  "fst (graph_execute_language e spec st) \<noteq> Blocks"
  unfolding graph_execute_language_def Let_def
  by (intro never_blocks_then_do)
     (auto simp: then_do_eq_Blocks graph_compile_loop_never_blocks graph_run_stage_never_blocks
        emit_def split: prod.splits option.splits sum.splits)

lemma graph_threads_never_block: "Blocks \<notin> fst ` set (graph_threads e langs)"
proof
  assume "Blocks \<in> fst ` set (graph_threads e langs)"
  then obtain spec where "Blocks = fst (graph_execute_language e spec graph_initial)"
    by (auto simp: graph_threads_def)
  with graph_execute_language_never_blocks [of e spec graph_initial] show False by simp
qed

lemma all_shuffles_set:
  "body \<in> all_shuffles ts \<Longrightarrow> set body = \<Union> (set ` set ts)"
proof (induction ts arbitrary: body)
  case Nil
  then show ?case by simp
next
  case (Cons t ts)
  then obtain u where u: "u \<in> all_shuffles ts" and b: "body \<in> shuffles t u" by auto
  from set_shuffles [OF b] Cons.IH [OF u] show ?case by simp
qed

lemma all_shuffles_not_empty: "all_shuffles ts \<noteq> {}"
proof (induction ts)
  case Nil
  then show ?case by simp
next
  case (Cons t ts)
  then obtain u where u: "u \<in> all_shuffles ts" by auto
  have "splice t u \<in> shuffles t u" by (rule splice_in_shuffles)
  with u show ?case by auto
qed

lemma graph_bodies_no_rmtree:
  assumes "body \<in> all_shuffles (map snd (graph_threads e langs))"
  shows "rmtrees body = 0"
proof -
  from all_shuffles_set [OF assms]
  have "set body = \<Union> (set ` set (map snd (graph_threads e langs)))" .
  moreover have "Rmtree \<notin> set (snd t)" if "t \<in> set (graph_threads e langs)" for t
    using that graph_execute_language_no_rmtree [of e]
    by (auto simp: graph_threads_def rmtrees_0_iff)
  ultimately show ?thesis by (auto simp: rmtrees_0_iff)
qed


text \<open>
  C4 (as amended).  Let the workspace be creatable.  \<open>main\<close> of multi_lang_hello.py first
  removes a workspace left by an earlier run, creates the workspace and runs the pipelines
  one after the other, none of which removes the workspace; when the loop has ended, by
  its last pipeline or by an exception leaving one, \<open>shutil.rmtree\<close> is called exactly
  once more, after every effect of the pipelines, however many of them failed, and the
  directory does not exist afterwards exactly when that call succeeded (which the
  returned cleanup status says); when a pipeline never ends, nothing is removed.  The
  loop returns when every command can be run and exits.  \<open>_start_execution\<close> of
  graphical_hello.py lets the exception of a failing removal of a stale workspace escape;
  otherwise, whatever the interleaving of the threads, none of which blocks or removes the
  workspace, \<open>run_all\<close> calls \<open>shutil.rmtree\<close> exactly once after all the threads have
  ended, and the directory does not exist afterwards exactly when that call succeeded.
\<close>

theorem workspace_removed_after_last_pipeline:
  assumes "mkdir_error e = None"
  shows "(\<forall>r f fx. main e langs f0 = (r, f, fx) \<longrightarrow>
            (if fst (process_all e langs) = Blocks
             then r = Blocks \<and>
                  fx = (if ws_exists f0 then [Rmtree] else []) @ [Mkdir] @
                       snd (process_all e langs)
             else fx = (if ws_exists f0 then [Rmtree] else []) @ [Mkdir] @
                       snd (process_all e langs) @ [Rmtree] \<and>
                  (ws_exists f \<longleftrightarrow> \<not> rmtree_ok e (rmtree_calls f - 1)) \<and>
                  (fst (process_all e langs) = Returns () \<longrightarrow> r = Returns (\<not> ws_exists f)) \<and>
                  (\<forall>msg. fst (process_all e langs) = Raises msg \<longrightarrow> r = Raises msg))) \<and>
         rmtrees (snd (process_all e langs)) = 0 \<and>
         ((\<forall>lang\<in>set langs. \<forall>c\<in>set (run_cmd lang # compile_cmds lang).
              behaviour e c \<noteq> Hangs \<and> \<not> cannot_run e c) \<longrightarrow>
            fst (process_all e langs) = Returns ()) \<and>
         (\<forall>r f traces. start_execution e langs f0 = (r, f, traces) \<longrightarrow>
            (if ws_exists f0 \<and> \<not> rmtree_ok e (rmtree_calls f0)
             then (\<exists>msg. r = Raises msg) \<and> traces = {[Rmtree]} \<and> ws_exists f
             else traces =
                    (\<lambda>body. (if ws_exists f0 then [Rmtree] else []) @ [Mkdir] @ body @ [Rmtree]) `
                      all_shuffles (map snd (graph_threads e langs)) \<and>
                  traces \<noteq> {} \<and>
                  (ws_exists f \<longleftrightarrow> \<not> rmtree_ok e (rmtree_calls f - 1)) \<and>
                  r = Returns (\<not> ws_exists f))) \<and>
         (\<forall>body\<in>all_shuffles (map snd (graph_threads e langs)). rmtrees body = 0)"
proof -
  have mk: "mkdir_workspace e = (Returns (), [Mkdir])"
    using assms by (simp add: mkdir_workspace_def)
  obtain pr pfx where pa: "process_all e langs = (pr, pfx)"
    by (cases "process_all e langs")
  have m: "\<forall>r f fx. main e langs f0 = (r, f, fx) \<longrightarrow>
            (if fst (process_all e langs) = Blocks
             then r = Blocks \<and>
                  fx = (if ws_exists f0 then [Rmtree] else []) @ [Mkdir] @
                       snd (process_all e langs)
             else fx = (if ws_exists f0 then [Rmtree] else []) @ [Mkdir] @
                       snd (process_all e langs) @ [Rmtree] \<and>
                  (ws_exists f \<longleftrightarrow> \<not> rmtree_ok e (rmtree_calls f - 1)) \<and>
                  (fst (process_all e langs) = Returns () \<longrightarrow> r = Returns (\<not> ws_exists f)) \<and>
                  (\<forall>msg. fst (process_all e langs) = Raises msg \<longrightarrow> r = Raises msg))"
    using mk pa by (cases pr) (auto simp: main_def cleanup_workspace_def Let_def)
  have n: "rmtrees (snd (process_all e langs)) = 0" by (rule process_all_no_rmtree)
  have t: "(\<forall>lang\<in>set langs. \<forall>c\<in>set (run_cmd lang # compile_cmds lang).
              behaviour e c \<noteq> Hangs \<and> \<not> cannot_run e c) \<longrightarrow>
            fst (process_all e langs) = Returns ()"
    using process_all_returns [of langs e] by blast
  have g: "\<forall>r f traces. start_execution e langs f0 = (r, f, traces) \<longrightarrow>
            (if ws_exists f0 \<and> \<not> rmtree_ok e (rmtree_calls f0)
             then (\<exists>msg. r = Raises msg) \<and> traces = {[Rmtree]} \<and> ws_exists f
             else traces =
                    (\<lambda>body. (if ws_exists f0 then [Rmtree] else []) @ [Mkdir] @ body @ [Rmtree]) `
                      all_shuffles (map snd (graph_threads e langs)) \<and>
                  traces \<noteq> {} \<and>
                  (ws_exists f \<longleftrightarrow> \<not> rmtree_ok e (rmtree_calls f - 1)) \<and>
                  r = Returns (\<not> ws_exists f))"
    using mk graph_threads_never_block [of e langs]
      all_shuffles_not_empty [of "map snd (graph_threads e langs)"]
    by (auto simp: start_execution_def run_all_def Let_def image_image)
  have b: "\<forall>body\<in>all_shuffles (map snd (graph_threads e langs)). rmtrees body = 0"
    using graph_bodies_no_rmtree [of _ e langs] by blast
  from m n t g b show ?thesis by blast
qed

theorem workspace_removed_after_last_pipeline_witness:
  "mkdir_error world_gcc_fails = None \<and> mkdir_error world_noexec = None \<and>
   list_all (\<lambda>lang. list_all (\<lambda>c. behaviour world_gcc_fails c \<noteq> Hangs \<and>
                                   \<not> cannot_run world_gcc_fails c)
                       (run_cmd lang # compile_cmds lang)) ml_LANGUAGES \<and>
   (\<exists>f fx. main world_gcc_fails ml_LANGUAGES \<lparr>ws_exists = True, rmtree_calls = 0\<rparr> =
              (Returns True, f, fx) \<and>
      \<not> ws_exists f \<and> last fx = Rmtree \<and> rmtrees fx = 2) \<and>
   fst (process_all world_noexec ml_LANGUAGES) = Raises (ascii ''Permission denied'') \<and>
   (\<exists>f fx. main world_noexec ml_LANGUAGES \<lparr>ws_exists = False, rmtree_calls = 0\<rparr> =
              (Raises (ascii ''Permission denied''), f, fx) \<and>
      \<not> ws_exists f \<and> last fx = Rmtree \<and> rmtrees fx = 1) \<and>
   (\<exists>f traces.
      start_execution world_gcc_fails LANGUAGES \<lparr>ws_exists = False, rmtree_calls = 0\<rparr> =
        (Returns True, f, traces) \<and>
      \<not> ws_exists f \<and> traces \<noteq> {})"
proof -
  let ?f0 = "\<lparr>ws_exists = True, rmtree_calls = 0\<rparr>"
  let ?f1 = "\<lparr>ws_exists = False, rmtree_calls = 0\<rparr>"
  have k1: "mkdir_error world_gcc_fails = None"
    by (simp add: world_gcc_fails_def with_behaviour_def world_ok_def)
  have k2: "mkdir_error world_noexec = None"
    by (simp add: world_noexec_def with_behaviour_def world_ok_def)
  have ok1: "rmtree_ok world_gcc_fails n" for n
    by (simp add: world_gcc_fails_def with_behaviour_def world_ok_def)
  have ok2: "rmtree_ok world_noexec n" for n
    by (simp add: world_noexec_def with_behaviour_def world_ok_def)
  have h: "\<forall>lang\<in>set ml_LANGUAGES. \<forall>c\<in>set (run_cmd lang # compile_cmds lang).
             behaviour world_gcc_fails c \<noteq> Hangs \<and> \<not> cannot_run world_gcc_fails c"
    by (simp add: ml_LANGUAGES_def Python_spec_def C_spec_def Cpp_spec_def Rust_spec_def
        X86_spec_def Assembly_spec_def gcc_cmd_def gpp_cmd_def rustc_cmd_def nasm_cmd_def
        ld_cmd_def world_gcc_fails_def with_behaviour_def world_ok_def cannot_run_def)
  have p2: "fst (process_all world_noexec ml_LANGUAGES) = Raises (ascii ''Permission denied'')"
    by (simp add: process_language_def write_source_file_def run_compile_steps_def
        run_execution_def run_command_def subprocess_run_def ml_run_args_def ml_LANGUAGES_def
        Python_spec_def C_spec_def Cpp_spec_def Rust_spec_def X86_spec_def Assembly_spec_def
        gcc_cmd_def gpp_cmd_def rustc_cmd_def nasm_cmd_def ld_cmd_def world_noexec_def
        with_behaviour_def world_ok_def ascii_def)
  note T1 = workspace_removed_after_last_pipeline [OF k1, of ml_LANGUAGES ?f0]
  note T2 = workspace_removed_after_last_pipeline [OF k2, of ml_LANGUAGES ?f1]
  note T3 = workspace_removed_after_last_pipeline [OF k1, of LANGUAGES ?f1]
  obtain r1 g1 fx1 where m1: "main world_gcc_fails ml_LANGUAGES ?f0 = (r1, g1, fx1)"
    by (cases "main world_gcc_fails ml_LANGUAGES ?f0")
  from T1 h have p1: "fst (process_all world_gcc_fails ml_LANGUAGES) = Returns ()"
    and n1: "rmtrees (snd (process_all world_gcc_fails ml_LANGUAGES)) = 0" by blast+
  from T1 m1 p1 ok1 have
    a1: "fx1 = [Rmtree] @ [Mkdir] @ snd (process_all world_gcc_fails ml_LANGUAGES) @ [Rmtree]"
    and a2: "\<not> ws_exists g1" and a3: "r1 = Returns True"
    by auto
  from a1 n1 have a4: "last fx1 = Rmtree" "rmtrees fx1 = 2" by (simp_all add: rmtrees_append)
  obtain r2 g2 fx2 where m2: "main world_noexec ml_LANGUAGES ?f1 = (r2, g2, fx2)"
    by (cases "main world_noexec ml_LANGUAGES ?f1")
  from T2 have n2: "rmtrees (snd (process_all world_noexec ml_LANGUAGES)) = 0" by blast
  from T2 m2 p2 ok2 have
    b1: "fx2 = [Mkdir] @ snd (process_all world_noexec ml_LANGUAGES) @ [Rmtree]"
    and b2: "\<not> ws_exists g2" and b3: "r2 = Raises (ascii ''Permission denied'')"
    by auto
  from b1 n2 have b4: "last fx2 = Rmtree" "rmtrees fx2 = 1" by (simp_all add: rmtrees_append)
  obtain r3 g3 tr3 where
    m3: "start_execution world_gcc_fails LANGUAGES ?f1 = (r3, g3, tr3)"
    by (cases "start_execution world_gcc_fails LANGUAGES ?f1")
  from T3 m3 ok1 have c1: "tr3 \<noteq> {}" "\<not> ws_exists g3" "r3 = Returns True" by auto
  from h have h': "list_all (\<lambda>lang. list_all (\<lambda>c. behaviour world_gcc_fails c \<noteq> Hangs \<and>
                                   \<not> cannot_run world_gcc_fails c)
                       (run_cmd lang # compile_cmds lang)) ml_LANGUAGES"
    by (simp add: list_all_iff)
  from k1 k2 h' m1 a2 a3 a4 p2 m2 b2 b3 b4 m3 c1 show ?thesis by simp
qed

text \<open>
  C4 as stated fails.  When the workspace cannot be removed (\<open>shutil.rmtree\<close> raises
  \<open>OSError\<close>), \<open>main\<close> of multi_lang_hello.py reports the failed cleanup and returns with
  the directory still there; and when an earlier run has left a workspace, the workspace is
  removed twice in one run, the first time before any pipeline has started.
\<close>

theorem workspace_remains_when_rmtree_fails:
  "fst (main world_locked ml_LANGUAGES \<lparr>ws_exists = False, rmtree_calls = 0\<rparr>) =
     Returns False \<and>
   ws_exists (fst (snd (main world_locked ml_LANGUAGES \<lparr>ws_exists = False, rmtree_calls = 0\<rparr>))) \<and>
   rmtrees (snd (snd (main world_ok ml_LANGUAGES \<lparr>ws_exists = True, rmtree_calls = 0\<rparr>))) = 2 \<and>
   hd (snd (snd (main world_ok ml_LANGUAGES \<lparr>ws_exists = True, rmtree_calls = 0\<rparr>))) = Rmtree"
  by (simp add: main_def cleanup_workspace_def mkdir_workspace_def process_language_def
      write_source_file_def
      run_compile_steps_def run_execution_def run_command_def subprocess_run_def
      ml_run_args_def ml_LANGUAGES_def Python_spec_def C_spec_def Cpp_spec_def Rust_spec_def
      X86_spec_def Assembly_spec_def gcc_cmd_def gpp_cmd_def rustc_cmd_def nasm_cmd_def
      ld_cmd_def world_locked_def world_ok_def Let_def)


section \<open>The progress percentages of each front end\<close>


























section \<open>animated_hello.py after a failed compile step\<close>

text \<open>
  C2 fails on the code.  The C compiler exits with status 1 after a fifth of a second, so
  there is no binary.  Step 3 of \<open>run_animation\<close> skips a language only when its compile
  timing is exactly 0 and the binary is missing (animated_hello.py 775); the timing of the
  failed compile is not 0, so the run stage is entered all the same, and the progress
  queued for the C language after the 100 of the failed compile drops to 85 before it
  returns to 100.  In graphical_hello.py the same failure leaves the progress at 40: the
  compile-failure path of \<open>_execute_language\<close> never sets it to 100.
\<close>

theorem progress_drops_after_failed_compile:
  "fst (run_animation world_gcc_fails LANGUAGES) = Returns () \<and>
   progress_events 0 (snd (run_animation world_gcc_fails LANGUAGES)) = [30, 100, 85, 100] \<and>
   launches (snd (anim_run_lang world_gcc_fails 0 C_spec
       ((\<lambda>k. None)(TWrite \<mapsto> 1/100, TCompile \<mapsto> 1/5)))) = [[ascii ''./hello_c'']] \<and>
   map_outcome g_progress (fst (graph_execute_language world_gcc_fails C_spec graph_initial)) =
     Returns 40 \<and>
   assignments (snd (graph_execute_language world_gcc_fails C_spec graph_initial)) =
     [10, 25, 40]"
  by (simp add: run_animation_def anim_compile_lang_def anim_run_lang_def anim_run_stage_def
      anim_run_subprocess_def anim_run_args_def subprocess_run_def get0_def
      graph_execute_language_def graph_run_subprocess_def graph_run_args_def graph_initial_def
      LANGUAGES_def C_spec_def Cpp_spec_def Rust_spec_def Assembly_spec_def
      world_gcc_fails_def with_behaviour_def world_ok_def emit_def
      gcc_cmd_def gpp_cmd_def rustc_cmd_def nasm_cmd_def ld_cmd_def py_or_def ascii_def Let_def)

text \<open>
  C7 fails on the code.  In the same run the C language fails twice (a compile_error and a
  run_error event are queued for it), yet the final \<open>done\<close> event of animated_hello.py
  reports 4 successes out of 4: \<open>success_count\<close> counts the languages whose run timing is
  positive (animated_hello.py 812), whether the run succeeded or not.  The event carries no
  failure count and no total elapsed time.
\<close>

theorem done_event_counts_failed_run_as_success:
  "fst (run_animation world_gcc_fails LANGUAGES) = Returns () \<and>
   last (snd (run_animation world_gcc_fails LANGUAGES)) = Send (EvDone 4 4) \<and>
   compile_errors (snd (run_animation world_gcc_fails LANGUAGES)) =
     [EvCompileError 0 (ascii ''gcc hello.c -o hello_c'') (ascii ''syntax error'')] \<and>
   run_errors (snd (run_animation world_gcc_fails LANGUAGES)) =
     [EvRunError 0 (ascii ''./hello_c'') (anim_not_found_prefix @ ascii ''./hello_c'')]"
  by (simp add: run_animation_def anim_compile_lang_def anim_run_lang_def anim_run_stage_def
      anim_run_subprocess_def anim_run_args_def subprocess_run_def get0_def
      LANGUAGES_def C_spec_def Cpp_spec_def Rust_spec_def Assembly_spec_def
      world_gcc_fails_def with_behaviour_def world_ok_def anim_not_found_prefix_def emit_def
      gcc_cmd_def gpp_cmd_def rustc_cmd_def nasm_cmd_def ld_cmd_def py_or_def ascii_def Let_def)

text \<open>
  The desktop front end counts as the claim says: the successes are the states that are not
  failed, the failures are the others, and the total time is passed through.
\<close>

lemma finish_execution_counts:
  "finish_execution states total_time =
     (length (filter (\<lambda>s. \<not> g_failed s) states), length (filter g_failed states), total_time)"
proof -
  have "length (filter g_failed states) + length (filter (\<lambda>s. \<not> g_failed s) states) =
        length states"
    by (rule sum_length_filter_compl)
  then show ?thesis by (simp add: finish_execution_def Let_def)
qed


end
